theory Spec2Isabelle
  imports Complex_Main "HOL-Library.AList"
begin

section \<open>Converting measurement data into the Acoular HDF5 layout\<close>

text \<open>
  The notebook \<^verbatim>\<open>_notebooks/2022-06-24-convert-input-data.ipynb\<close> reads a 64 channel
  recording from a .csv file, from a Matlab v7 file and from a Matlab v7.3 file, and
  stores each as an HDF5 file with one extensible array \<^verbatim>\<open>time_data\<close> carrying the
  attribute \<^verbatim>\<open>sample_freq\<close>. Its code cells are sequences of calls into numpy, scipy
  and PyTables. The calls are modelled below by what they do to arrays and to the files
  they touch, with the arguments and defaults the notebook calls them with; the cells
  are then the same sequences of these calls.

  Floating point numbers are not modelled bit by bit. Array elements are values of a
  type \<open>'v\<close> that the library calls copy, and what Python does with numbers is an
  argument \<open>fl\<close> of the model: \<^verbatim>\<open>float(s)\<close>, the value nan and the cast to 32 bit.
  Python exceptions are values of \<open>py_error\<close>; a call that can raise returns a sum
  with the exception on the left.
\<close>

subsection \<open>Exceptions\<close>

datatype py_error =
    ValueError
  | IndexError
  | KeyError
  | IOError
  | FileExistsError
  | HDF5ExtError
  | NoSuchNodeError
  | NodeError
  | ClosedFileError
  | FileModeError
  | AttributeError
  | NotImplementedError

subsection \<open>Numbers\<close>

text \<open>
  \<open>float_of_str fl s\<close> is \<^verbatim>\<open>float(s)\<close>, with \<open>None\<close> where Python raises ValueError;
  \<open>nan fl\<close> is \<^verbatim>\<open>numpy.nan\<close>; \<open>to_float32 fl\<close> is the cast to a 32 bit float;
  \<open>float_of_real fl x\<close> is the float that a literal such as \<^verbatim>\<open>51200.0\<close> denotes.
\<close>

record 'v py_floats =
  float_of_str :: "string \<Rightarrow> 'v option"
  nan :: 'v
  to_float32 :: "'v \<Rightarrow> 'v"
  float_of_real :: "real \<Rightarrow> 'v"

subsection \<open>numpy arrays\<close>

datatype dtype = Float32 | Float64

text \<open>
  An array has an element type, a shape and its elements in row-major (C) order. A
  well-formed array holds as many elements as its shape says.
\<close>

record 'v ndarray =
  dtype :: dtype
  shape :: "nat list"
  data :: "'v list"

definition wf_ndarray :: "'v ndarray \<Rightarrow> bool" where
  "wf_ndarray a = (length (data a) = prod_list (shape a))"

text \<open>The position of the element with index \<open>idx\<close> in the row-major order.\<close>

definition ravel_index :: "nat list \<Rightarrow> nat list \<Rightarrow> nat" where
  "ravel_index shp idx = foldl (\<lambda>acc (n, i). acc * n + i) 0 (zip shp idx)"

text \<open>
  \<^verbatim>\<open>a[i, j]\<close> (and \<^verbatim>\<open>a[i][j]\<close>) with non-negative indices: one index for every axis, each
  within its axis, or IndexError.
\<close>

definition item :: "'v ndarray \<Rightarrow> nat list \<Rightarrow> py_error + 'v" where
  "item a idx =
     (if length idx = length (shape a) \<and> list_all2 (\<lambda>i n. i < n) idx (shape a)
         \<and> ravel_index (shape a) idx < length (data a)
      then Inr (data a ! ravel_index (shape a) idx)
      else Inl IndexError)"

text \<open>\<^verbatim>\<open>np.array(a, dtype='float32')\<close>: a copy of \<open>a\<close> with every element cast.\<close>

definition np_array_float32 :: "'v py_floats \<Rightarrow> 'v ndarray \<Rightarrow> 'v ndarray" where
  "np_array_float32 fl a =
     \<lparr>dtype = Float32, shape = shape a, data = map (to_float32 fl) (data a)\<rparr>"

text \<open>
  \<^verbatim>\<open>np.array(rows, dtype='float32')\<close> for a list of rows of equal length: no row gives an
  array of shape \<open>(0,)\<close>, otherwise the shape is the number of rows by their length.
\<close>

definition np_array_rows :: "'v py_floats \<Rightarrow> 'v list list \<Rightarrow> 'v ndarray" where
  "np_array_rows fl rows =
     (case rows of
        [] \<Rightarrow> \<lparr>dtype = Float32, shape = [0], data = []\<rparr>
      | r # _ \<Rightarrow> \<lparr>dtype = Float32, shape = [length rows, length r],
                  data = map (to_float32 fl) (concat rows)\<rparr>)"

text \<open>
  \<^verbatim>\<open>a.T\<close>: the array with its axes reversed. The element at index \<open>idx\<close> of the result
  is the element at index \<open>rev idx\<close> of \<open>a\<close>.
\<close>

definition all_indices :: "nat list \<Rightarrow> nat list list" where
  "all_indices shp = product_lists (map (\<lambda>n. [0..<n]) shp)"

definition ndarray_T :: "'v ndarray \<Rightarrow> 'v ndarray" where
  "ndarray_T a =
     \<lparr>dtype = dtype a,
      shape = rev (shape a),
      data = map (\<lambda>idx. data a ! ravel_index (shape a) (rev idx)) (all_indices (rev (shape a)))\<rparr>"

text \<open>\<^verbatim>\<open>np.squeeze(a)\<close>: the axes of length one are dropped; the elements stay.\<close>

definition squeeze :: "'v ndarray \<Rightarrow> 'v ndarray" where
  "squeeze a = a\<lparr>shape := filter (\<lambda>n. n \<noteq> 1) (shape a)\<rparr>"

subsection \<open>HDF5 files as PyTables shows them\<close>

text \<open>
  The notebook prints what a file in the target layout holds: the root group has one
  child, the EArray \<^verbatim>\<open>time_data\<close> with atom Float32Atom, and that node's attribute set
  is
  \<^verbatim>\<open>[CLASS := 'EARRAY', EXTDIM := 0, TITLE := '', VERSION := '1.1', sample_freq := 51200.0]\<close>.
  The first four are written by PyTables for every EArray it creates; the last one is
  the one custom attribute, set by the caller.
\<close>

type_synonym path = string

datatype 'v attr_value = AStr string | AInt int | AFloat 'v

datatype node_class = ARRAY | EARRAY

record 'v leaf =
  node_class :: node_class
  arr :: "'v ndarray"
  attrs :: "(string \<times> 'v attr_value) list"

record 'v h5file =
  root_title :: string
  children :: "(string \<times> 'v leaf) list"

text \<open>
  A file on disk is a text file, a Matlab v7 file (named arrays, as \<^verbatim>\<open>loadmat\<close> returns
  them) or an HDF5 file. The world is the files by path and the handles PyTables holds
  open.
\<close>

datatype 'v disk_file = TextFile string | MatFile "(string \<times> 'v ndarray) list" | H5File "'v h5file"

datatype fmode = ModeR | ModeW

text \<open>Every call of \<^verbatim>\<open>open_file\<close> returns a new handle; \<open>hid\<close> tells them apart.\<close>

record handle =
  hid :: nat
  hpath :: path
  hmode :: fmode

record 'v world =
  files :: "path \<Rightarrow> 'v disk_file option"
  handles :: "handle list"
  next_hid :: nat

text \<open>
  Whether an access to the disk goes through (the disk is full, the path is not
  writable) is not decided by the notebook. It is an input of the model: \<open>io c\<close>
  tells whether the calls of kind \<open>c\<close> get through. Where \<open>io OpenFile\<close> is false
  \<^verbatim>\<open>open_file\<close> raises IOError and changes nothing. Where \<open>io CreateEArray\<close> is false
  the new array is created and the write of its rows (when it has any element) raises
  HDF5ExtError, which leaves the array empty. Where \<open>io SetAttr\<close> is false
  \<^verbatim>\<open>set_attr\<close> raises HDF5ExtError and changes nothing.
\<close>

datatype io_call = OpenFile | CreateEArray | SetAttr

type_synonym io_env = "io_call \<Rightarrow> bool"

text \<open>
  PyTables keeps a registry of the files the process holds open, by file name.
\<close>

definition held_open :: "'v world \<Rightarrow> path \<Rightarrow> bool" where
  "held_open w p = (\<exists>h \<in> set (handles w). hpath h = p)"

definition held_open_for_writing :: "'v world \<Rightarrow> path \<Rightarrow> bool" where
  "held_open_for_writing w p = (\<exists>h \<in> set (handles w). hpath h = p \<and> hmode h \<noteq> ModeR)"

text \<open>
  \<^verbatim>\<open>tables.open_file(path, mode, title)\<close>. The registry is looked at first: mode \<^verbatim>\<open>'w'\<close>
  on a file the process holds open, and mode \<^verbatim>\<open>'r'\<close> on a file it holds open for
  writing, raise ValueError. Mode \<^verbatim>\<open>'r'\<close> needs an HDF5 file at the path. Mode \<^verbatim>\<open>'w'\<close>
  creates a new, empty file and puts it at the path, whatever was there.
\<close>

definition new_handle :: "'v world \<Rightarrow> path \<Rightarrow> fmode \<Rightarrow> handle" where
  "new_handle w p m = \<lparr>hid = next_hid w, hpath = p, hmode = m\<rparr>"

definition open_file :: "io_env \<Rightarrow> 'v world \<Rightarrow> path \<Rightarrow> fmode \<Rightarrow> string \<Rightarrow> 'v world \<times> (py_error + handle)" where
  "open_file io w p m title =
     (case m of
        ModeR \<Rightarrow>
          (if held_open_for_writing w p then (w, Inl ValueError)
           else if \<not> io OpenFile then (w, Inl IOError)
           else
             (case files w p of
                None \<Rightarrow> (w, Inl IOError)
              | Some (H5File f) \<Rightarrow>
                  (w\<lparr>handles := handles w @ [new_handle w p ModeR], next_hid := Suc (next_hid w)\<rparr>,
                   Inr (new_handle w p ModeR))
              | Some _ \<Rightarrow> (w, Inl HDF5ExtError)))
      | ModeW \<Rightarrow>
          (if held_open w p then (w, Inl ValueError)
           else if \<not> io OpenFile then (w, Inl IOError)
           else
             (w\<lparr>files := (files w)(p \<mapsto> H5File \<lparr>root_title = title, children = []\<rparr>),
                handles := handles w @ [new_handle w p ModeW],
                next_hid := Suc (next_hid w)\<rparr>,
              Inr (new_handle w p ModeW))))"

text \<open>\<^verbatim>\<open>h.close()\<close>: the handle is no longer open.\<close>

definition close_file :: "'v world \<Rightarrow> handle \<Rightarrow> 'v world" where
  "close_file w h = w\<lparr>handles := removeAll h (handles w)\<rparr>"

text \<open>The HDF5 file behind an open handle, and behind one opened for writing.\<close>

definition file_of :: "'v world \<Rightarrow> handle \<Rightarrow> py_error + 'v h5file" where
  "file_of w h =
     (if h \<notin> set (handles w) then Inl ClosedFileError
      else
        (case files w (hpath h) of
           Some (H5File f) \<Rightarrow> Inr f
         | _ \<Rightarrow> Inl HDF5ExtError))"

definition writable_file_of :: "'v world \<Rightarrow> handle \<Rightarrow> py_error + 'v h5file" where
  "writable_file_of w h =
     (case file_of w h of
        Inl e \<Rightarrow> Inl e
      | Inr f \<Rightarrow> (if hmode h = ModeR then Inl FileModeError else Inr f))"

text \<open>\<^verbatim>\<open>h.root.name\<close>: the child of the root group with that name.\<close>

definition get_node :: "'v world \<Rightarrow> handle \<Rightarrow> string \<Rightarrow> py_error + 'v leaf" where
  "get_node w h name =
     (case file_of w h of
        Inl e \<Rightarrow> Inl e
      | Inr f \<Rightarrow>
          (case map_of (children f) name of
             None \<Rightarrow> Inl NoSuchNodeError
           | Some nd \<Rightarrow> Inr nd))"

text \<open>\<^verbatim>\<open>node[:, :]\<close>: the whole array of a node with at least two axes.\<close>

definition getitem_all2 :: "'v leaf \<Rightarrow> py_error + 'v ndarray" where
  "getitem_all2 nd = (if length (shape (arr nd)) < 2 then Inl IndexError else Inr (arr nd))"

text \<open>\<^verbatim>\<open>node.attrs.key\<close>: the attribute of that name.\<close>

definition get_attr :: "'v leaf \<Rightarrow> string \<Rightarrow> py_error + 'v attr_value" where
  "get_attr nd key = (case map_of (attrs nd) key of None \<Rightarrow> Inl AttributeError | Some v \<Rightarrow> Inr v)"

text \<open>Storing a node under a name in the root group of the handle's file.\<close>

definition put_node :: "'v world \<Rightarrow> handle \<Rightarrow> 'v h5file \<Rightarrow> string \<Rightarrow> 'v leaf \<Rightarrow> 'v world" where
  "put_node w h f name nd =
     w\<lparr>files := (files w)(hpath h \<mapsto> H5File (f\<lparr>children := AList.update name nd (children f)\<rparr>))\<rparr>"

text \<open>
  \<^verbatim>\<open>EArray.append(obj)\<close>: the rows of \<open>obj\<close> are added along the first axis. The two
  arrays have the same number of axes and agree on all but the first, or ValueError.
\<close>

definition append_rows :: "'v ndarray \<Rightarrow> 'v ndarray \<Rightarrow> py_error + 'v ndarray" where
  "append_rows a obj =
     (case (shape a, shape obj) of
        (n # ns, m # ms) \<Rightarrow>
          (if ns = ms then Inr (a\<lparr>shape := (n + m) # ns, data := data a @ data obj\<rparr>)
           else Inl ValueError)
      | _ \<Rightarrow> Inl ValueError)"

text \<open>The attributes PyTables writes on every EArray it creates (with the default title).\<close>

definition earray_sys_attrs :: "(string \<times> 'v attr_value) list" where
  "earray_sys_attrs =
     [(''CLASS'', AStr ''EARRAY''), (''EXTDIM'', AInt 0), (''TITLE'', AStr []),
      (''VERSION'', AStr ''1.1'')]"

text \<open>
  \<^verbatim>\<open>h.create_earray('/', name, obj=obj)\<close>: a new EArray in the root group whose atom is
  the element type of \<open>obj\<close> and whose shape is that of \<open>obj\<close> with the first axis set
  to 0 (the axis along which it grows); then \<open>obj\<close> is appended to it. An EArray has
  one axis of length 0 only: an \<open>obj\<close> with another axis of length 0 is refused with
  NotImplementedError before anything is created. Once the array is created it stays in
  the file, empty, when the append raises. The append checks the shapes and writes the
  rows only when \<open>obj\<close> has an element.
\<close>

definition create_earray :: "io_env \<Rightarrow> 'v world \<Rightarrow> handle \<Rightarrow> string \<Rightarrow> 'v ndarray \<Rightarrow> 'v world \<times> (py_error + unit)" where
  "create_earray io w h name obj =
     (case writable_file_of w h of
        Inl e \<Rightarrow> (w, Inl e)
      | Inr f \<Rightarrow>
          (if name \<in> set (map fst (children f)) then (w, Inl NodeError)
           else if 0 \<in> set (tl (shape obj)) then (w, Inl NotImplementedError)
           else
             (let earray = \<lparr>node_class = EARRAY,
                            arr = \<lparr>dtype = dtype obj, shape = 0 # tl (shape obj), data = []\<rparr>,
                            attrs = earray_sys_attrs\<rparr>
              in (case append_rows (arr earray) obj of
                    Inl e \<Rightarrow> (put_node w h f name earray, Inl e)
                  | Inr a \<Rightarrow>
                      (if 0 < prod_list (shape obj) \<and> \<not> io CreateEArray
                       then (put_node w h f name earray, Inl HDF5ExtError)
                       else (put_node w h f name (earray\<lparr>arr := a\<rparr>), Inr ()))))))"

text \<open>\<^verbatim>\<open>h.root.name.set_attr(key, v)\<close>: the attribute \<open>key\<close> of the node becomes \<open>v\<close>.\<close>

definition set_attr :: "io_env \<Rightarrow> 'v world \<Rightarrow> handle \<Rightarrow> string \<Rightarrow> string \<Rightarrow> 'v attr_value \<Rightarrow> 'v world \<times> (py_error + unit)" where
  "set_attr io w h name key v =
     (case get_node w h name of
        Inl e \<Rightarrow> (w, Inl e)
      | Inr nd \<Rightarrow>
          (case writable_file_of w h of
             Inl e \<Rightarrow> (w, Inl e)
           | Inr f \<Rightarrow>
               (if \<not> io SetAttr then (w, Inl HDF5ExtError)
                else (put_node w h f name (nd\<lparr>attrs := AList.update key v (attrs nd)\<rparr>), Inr ()))))"

subsection \<open>Reading the .csv file\<close>

text \<open>
  \<^verbatim>\<open>datacsv = np.genfromtxt('three_sources.csv', delimiter=',', dtype='float32')\<close>

  With these arguments \<^verbatim>\<open>genfromtxt\<close> works as follows (the other arguments keep their
  defaults: \<^verbatim>\<open>comments='#'\<close>, \<^verbatim>\<open>invalid_raise=True\<close>, \<^verbatim>\<open>loose=True\<close>). The file is read
  as text with universal newlines: a line ends at LF, at CR LF and at a CR alone. A line
  is cut at
  the first \<^verbatim>\<open>#\<close>, stripped of blanks and line ends, and split at the commas; a line
  with nothing left has no values and is skipped. The first line with values sets the
  number of columns. Every later line with values and another number of them is
  recorded as invalid, and one invalid line makes the call raise ValueError. Each value
  is converted with \<^verbatim>\<open>float\<close>; where \<^verbatim>\<open>float\<close> raises ValueError the value is nan
  (\<^verbatim>\<open>loose=True\<close>: no error is raised for an invalid value). The result is
  squeezed.
\<close>

fun universal_lines :: "string \<Rightarrow> string list" where
  "universal_lines [] = [[]]"
| "universal_lines (c # cs) =
     (if c = CHR 0x0A then [] # universal_lines cs
      else if c = CHR 0x0D then
        (case cs of
           [] \<Rightarrow> [] # universal_lines cs
         | d # ds \<Rightarrow> (if d = CHR 0x0A then [] # universal_lines ds else [] # universal_lines cs))
      else (case universal_lines cs of
              [] \<Rightarrow> [[c]]
            | x # xs \<Rightarrow> (c # x) # xs))"

text \<open>\<^verbatim>\<open>s.split(d)\<close>\<close>

fun split_on :: "char \<Rightarrow> string \<Rightarrow> string list" where
  "split_on d [] = [[]]"
| "split_on d (c # cs) =
     (if c = d then [] # split_on d cs
      else (case split_on d cs of
              [] \<Rightarrow> [[c]]
            | x # xs \<Rightarrow> (c # x) # xs))"

text \<open>\<^verbatim>\<open>s.strip(cs)\<close>\<close>

definition strip_chars :: "string \<Rightarrow> string \<Rightarrow> string" where
  "strip_chars cs s = rev (dropWhile (\<lambda>c. c \<in> set cs) (rev (dropWhile (\<lambda>c. c \<in> set cs) s)))"

definition split_line :: "string \<Rightarrow> string list" where
  "split_line line =
     (let line1 = takeWhile (\<lambda>c. c \<noteq> CHR ''#'') line;
          line2 = strip_chars [CHR '' '', CHR 0x0D, CHR 0x0A] line1
      in if line2 = [] then [] else split_on CHR '','' line2)"

text \<open>The values of the first line that has any, and the lines from that line on.\<close>

fun first_values_of :: "string list \<Rightarrow> string list \<times> string list" where
  "first_values_of [] = ([], [])"
| "first_values_of (line # fhd) =
     (if split_line line = [] then first_values_of fhd else (split_line line, line # fhd))"

text \<open>The loop over the lines: the rows, and the invalid lines with their number of values.\<close>

fun read_rows :: "nat \<Rightarrow> nat \<Rightarrow> string list \<Rightarrow> string list list \<times> (nat \<times> nat) list" where
  "read_rows nbcols i [] = ([], [])"
| "read_rows nbcols i (line # fhd) =
     (let values = split_line line;
          nbvalues = length values;
          (rows, invalid) = read_rows nbcols (Suc i) fhd
      in if nbvalues = 0 then (rows, invalid)
         else if nbvalues \<noteq> nbcols then (rows, (i + 1, nbvalues) # invalid)
         else (values # rows, invalid))"

definition loose_call :: "'v py_floats \<Rightarrow> string \<Rightarrow> 'v" where
  "loose_call fl s = (case float_of_str fl s of Some x \<Rightarrow> x | None \<Rightarrow> nan fl)"

definition genfromtxt :: "'v py_floats \<Rightarrow> string \<Rightarrow> py_error + 'v ndarray" where
  "genfromtxt fl content =
     (let (first_values, fhd) = first_values_of (universal_lines content);
          nbcols = length first_values;
          (rows, invalid) = read_rows nbcols 0 fhd
      in if invalid \<noteq> [] then Inl ValueError
         else Inr (squeeze (np_array_rows fl (map (map (loose_call fl)) rows))))"

text \<open>The call on a path: the file has to be there, and to be text.\<close>

definition datacsv :: "'v py_floats \<Rightarrow> 'v world \<Rightarrow> path \<Rightarrow> py_error + 'v ndarray" where
  "datacsv fl w p =
     (case files w p of
        None \<Rightarrow> Inl IOError
      | Some (TextFile content) \<Rightarrow> genfromtxt fl content
      | Some _ \<Rightarrow> Inl ValueError)"

subsection \<open>Reading the Matlab v7 file\<close>

text \<open>
  \<^verbatim>\<open>
  ans = loadmat('three_sourcesv7.mat')['ans']
  datamat7 = np.array(ans, dtype='float32')
  \<close>
\<close>

definition loadmat :: "'v world \<Rightarrow> path \<Rightarrow> py_error + (string \<times> 'v ndarray) list" where
  "loadmat w p =
     (case files w p of
        None \<Rightarrow> Inl IOError
      | Some (MatFile vars) \<Rightarrow> Inr vars
      | Some _ \<Rightarrow> Inl ValueError)"

definition datamat7 :: "'v py_floats \<Rightarrow> 'v world \<Rightarrow> path \<Rightarrow> py_error + 'v ndarray" where
  "datamat7 fl w p =
     (case loadmat w p of
        Inl e \<Rightarrow> Inl e
      | Inr vars \<Rightarrow>
          (case map_of vars ''ans'' of
             None \<Rightarrow> Inl KeyError
           | Some ans \<Rightarrow> Inr (np_array_float32 fl ans)))"

subsection \<open>Reading the Matlab v7.3 file\<close>

text \<open>
  \<^verbatim>\<open>
  matfile73 = tables.open_file('three_sourcesv73.mat', mode = 'r')
  # be aware of Matlab transposing the array here
  datamat73 = np.array(matfile73.root.ans[:,:], dtype='float32').T
  \<close>
  The handle \<^verbatim>\<open>matfile73\<close> is not closed by the notebook.
\<close>

definition datamat73 :: "io_env \<Rightarrow> 'v py_floats \<Rightarrow> 'v world \<Rightarrow> path \<Rightarrow> 'v world \<times> (py_error + 'v ndarray)" where
  "datamat73 io fl w p =
     (case open_file io w p ModeR [] of
        (w1, Inl e) \<Rightarrow> (w1, Inl e)
      | (w1, Inr matfile73) \<Rightarrow>
          (case get_node w1 matfile73 ''ans'' of
             Inl e \<Rightarrow> (w1, Inl e)
           | Inr nd \<Rightarrow>
               (case getitem_all2 nd of
                  Inl e \<Rightarrow> (w1, Inl e)
                | Inr raw \<Rightarrow> (w1, Inr (ndarray_T (np_array_float32 fl raw))))))"

subsection \<open>Writing the target file\<close>

text \<open>
  The three conversions end with the same five lines, which differ in the file name and
  the array only:
  \<^verbatim>\<open>
  h5filecsv = tables.open_file('three_sources_from_csv.h5', mode='w',
                               title='three_sources')
  earraycsv = h5filecsv.create_earray('/', 'time_data', obj=datacsv)
  display(earraycsv)
  h5filecsv.root.time_data.set_attr('sample_freq',51200.0)
  h5filecsv.close()
  \<close>
  \<open>write_container\<close> is these lines with the file name, the title, the array and the
  sampling frequency as arguments (\<^verbatim>\<open>display\<close> prints the node and changes nothing).
  There is no \<^verbatim>\<open>try\<close> or \<^verbatim>\<open>with\<close> around them: a call that raises ends the cell, and
  the lines after it do not run. Nothing looks at the sampling frequency before it is
  stored.
\<close>

definition write_container :: "io_env \<Rightarrow> 'v world \<Rightarrow> path \<Rightarrow> string \<Rightarrow> 'v ndarray \<Rightarrow> 'v \<Rightarrow> 'v world \<times> (py_error + unit)" where
  "write_container io w p title obj sample_freq =
     (case open_file io w p ModeW title of
        (w1, Inl e) \<Rightarrow> (w1, Inl e)
      | (w1, Inr h5file) \<Rightarrow>
          (case create_earray io w1 h5file ''time_data'' obj of
             (w2, Inl e) \<Rightarrow> (w2, Inl e)
           | (w2, Inr _) \<Rightarrow>
               (case set_attr io w2 h5file ''time_data'' ''sample_freq'' (AFloat sample_freq) of
                  (w3, Inl e) \<Rightarrow> (w3, Inl e)
                | (w3, Inr _) \<Rightarrow> (close_file w3 h5file, Inr ()))))"

subsection \<open>The three conversions of the notebook\<close>

definition cell_csv :: "io_env \<Rightarrow> 'v py_floats \<Rightarrow> 'v world \<Rightarrow> 'v world \<times> (py_error + unit)" where
  "cell_csv io fl w =
     (case datacsv fl w ''three_sources.csv'' of
        Inl e \<Rightarrow> (w, Inl e)
      | Inr d \<Rightarrow> write_container io w ''three_sources_from_csv.h5'' ''three_sources'' d
                  (float_of_real fl 51200))"

definition cell_mat7 :: "io_env \<Rightarrow> 'v py_floats \<Rightarrow> 'v world \<Rightarrow> 'v world \<times> (py_error + unit)" where
  "cell_mat7 io fl w =
     (case datamat7 fl w ''three_sourcesv7.mat'' of
        Inl e \<Rightarrow> (w, Inl e)
      | Inr d \<Rightarrow> write_container io w ''three_sources_from_mat7.h5'' ''three_sources'' d
                  (float_of_real fl 51200))"

definition cell_mat73 :: "io_env \<Rightarrow> 'v py_floats \<Rightarrow> 'v world \<Rightarrow> 'v world \<times> (py_error + unit)" where
  "cell_mat73 io fl w =
     (case datamat73 io fl w ''three_sourcesv73.mat'' of
        (w1, Inl e) \<Rightarrow> (w1, Inl e)
      | (w1, Inr d) \<Rightarrow> write_container io w1 ''three_sources_from_mat73.h5'' ''three_sources'' d
                       (float_of_real fl 51200))"

subsection \<open>Looking into a file\<close>

text \<open>
  The first cells of the notebook open \<^verbatim>\<open>three_sources.h5\<close> and look at what it holds:
  \<^verbatim>\<open>
  h5file = tables.open_file('three_sources.h5', mode = 'r') # read only mode
  h5file.root
  h5file.root.time_data
  h5file.root.time_data[:10,47]
  h5file.root.time_data.attrs
  \<close>
  \<open>root_children\<close> and \<open>attr_names\<close> are what \<^verbatim>\<open>h5file.root\<close> and \<^verbatim>\<open>.attrs\<close> list for
  the file at a path, and \<open>node_at\<close> is the node of a name. \<open>user_attr_names\<close> leaves out
  the attributes PyTables writes itself. \<open>read_time_data\<close> opens a file in the target
  layout as the first cell does, and reads the whole array \<^verbatim>\<open>time_data\<close> and its
  attribute \<^verbatim>\<open>sample_freq\<close>.
\<close>

definition root_children :: "'v world \<Rightarrow> path \<Rightarrow> string list" where
  "root_children w p = (case files w p of Some (H5File f) \<Rightarrow> map fst (children f) | _ \<Rightarrow> [])"

definition node_at :: "'v world \<Rightarrow> path \<Rightarrow> string \<Rightarrow> 'v leaf option" where
  "node_at w p name = (case files w p of Some (H5File f) \<Rightarrow> map_of (children f) name | _ \<Rightarrow> None)"

definition attr_names :: "'v world \<Rightarrow> path \<Rightarrow> string \<Rightarrow> string list" where
  "attr_names w p name = (case node_at w p name of Some nd \<Rightarrow> map fst (attrs nd) | None \<Rightarrow> [])"

definition user_attr_names :: "'v world \<Rightarrow> path \<Rightarrow> string \<Rightarrow> string list" where
  "user_attr_names w p name =
     filter (\<lambda>k. k \<notin> set (map fst (earray_sys_attrs :: (string \<times> 'v attr_value) list)))
       (attr_names w p name)"

definition read_time_data :: "io_env \<Rightarrow> 'v world \<Rightarrow> path \<Rightarrow> 'v world \<times> (py_error + 'v ndarray \<times> 'v attr_value)" where
  "read_time_data io w p =
     (case open_file io w p ModeR [] of
        (w1, Inl e) \<Rightarrow> (w1, Inl e)
      | (w1, Inr h5file) \<Rightarrow>
          (case get_node w1 h5file ''time_data'' of
             Inl e \<Rightarrow> (w1, Inl e)
           | Inr time_data \<Rightarrow>
               (case getitem_all2 time_data of
                  Inl e \<Rightarrow> (w1, Inl e)
                | Inr m \<Rightarrow>
                    (case get_attr time_data ''sample_freq'' of
                       Inl e \<Rightarrow> (w1, Inl e)
                     | Inr v \<Rightarrow> (w1, Inr (m, v))))))"

subsection \<open>A conversion driver\<close>

text \<open>
  The notebook has no conversion driver and no format tag: its three conversions are
  three cells, run by hand. The specification (4.5) describes a driver
  \<^verbatim>\<open>convert(source_path, source_format, destination_path, sample_freq)\<close> as one linear
  sequence: select the adapter, parse, write. The driver below follows that description;
  the adapters and the writer it calls are the notebook's.
\<close>

datatype source_format = DelimitedText | LegacyBinaryMatrix | Hdf5BinaryMatrix

datatype conversion_error = UnsupportedFormat | Raised py_error

text \<open>
  Modelled from the spec: the selection of the adapter, which the notebook does not
  have. \<^verbatim>\<open>source_format\<close> is one of \<^verbatim>\<open>delimited_text\<close>, \<^verbatim>\<open>legacy_binary_matrix\<close>,
  \<^verbatim>\<open>hdf5_binary_matrix\<close>; every other value is unknown.
\<close>

definition select_adapter :: "string \<Rightarrow> source_format option" where
  "select_adapter tag =
     (if tag = ''delimited_text'' then Some DelimitedText
      else if tag = ''legacy_binary_matrix'' then Some LegacyBinaryMatrix
      else if tag = ''hdf5_binary_matrix'' then Some Hdf5BinaryMatrix
      else None)"

text \<open>
  Modelled from the spec: the dispatch to the matching input adapter, which the notebook
  does not have. The three adapters are the notebook's three ways of reading.
\<close>

definition parse_source :: "io_env \<Rightarrow> 'v py_floats \<Rightarrow> 'v world \<Rightarrow> source_format \<Rightarrow> path \<Rightarrow> 'v world \<times> (py_error + 'v ndarray)" where
  "parse_source io fl w fmt p =
     (case fmt of
        DelimitedText \<Rightarrow> (w, datacsv fl w p)
      | LegacyBinaryMatrix \<Rightarrow> (w, datamat7 fl w p)
      | Hdf5BinaryMatrix \<Rightarrow> datamat73 io fl w p)"

text \<open>
  Modelled from the spec: the conversion driver \<^verbatim>\<open>convert\<close>, which the notebook does not
  have. An unknown format fails with \<^verbatim>\<open>UnsupportedFormat\<close>; otherwise the source is
  parsed and the result written, and an error of the adapter or of the writer is passed
  on unchanged.
\<close>

definition convert :: "io_env \<Rightarrow> 'v py_floats \<Rightarrow> 'v world \<Rightarrow> path \<Rightarrow> string \<Rightarrow> path \<Rightarrow> 'v \<Rightarrow> 'v world \<times> (conversion_error + unit)" where
  "convert io fl w source_path source_format destination_path sample_freq =
     (case select_adapter source_format of
        None \<Rightarrow> (w, Inl UnsupportedFormat)
      | Some fmt \<Rightarrow>
          (case parse_source io fl w fmt source_path of
             (w1, Inl e) \<Rightarrow> (w1, Inl (Raised e))
           | (w1, Inr matrix) \<Rightarrow>
               (case write_container io w1 destination_path ''three_sources'' matrix sample_freq of
                  (w2, Inl e) \<Rightarrow> (w2, Inl (Raised e))
                | (w2, Inr u) \<Rightarrow> (w2, Inr u))))"

subsection \<open>Notions the properties are stated with\<close>

text \<open>
  A sample matrix is a well-formed float32 array with two axes: \<open>r\<close> samples by
  \<open>c\<close> channels.
\<close>

definition is_sample_matrix :: "'v ndarray \<Rightarrow> nat \<Rightarrow> nat \<Rightarrow> bool" where
  "is_sample_matrix m r c = (dtype m = Float32 \<and> shape m = [r, c] \<and> wf_ndarray m)"

text \<open>
  The lines of a text that have values, each as its values; and whether one of them has
  another number of values than the first.
\<close>

definition data_lines :: "string \<Rightarrow> string list list" where
  "data_lines content = filter (\<lambda>vs. vs \<noteq> []) (map split_line (universal_lines content))"

definition ragged :: "string \<Rightarrow> bool" where
  "ragged content =
     (\<exists>vs \<in> set (data_lines content). length vs \<noteq> length (hd (data_lines content)))"

text \<open>
  A text holds the array \<open>a\<close> of shape \<open>(r, c)\<close> when it has \<open>r\<close> lines with values,
  each of \<open>c\<close> values, and its values, read in order, are the elements of \<open>a\<close>.
\<close>

definition csv_holds :: "'v py_floats \<Rightarrow> string \<Rightarrow> 'v ndarray \<Rightarrow> bool" where
  "csv_holds fl content a =
     (case shape a of
        [r, c] \<Rightarrow>
          length (data_lines content) = r
          \<and> (\<forall>vs \<in> set (data_lines content). length vs = c)
          \<and> map (loose_call fl) (concat (data_lines content)) = data a
      | _ \<Rightarrow> False)"

text \<open>
  The node and the file that the five lines of the writer build from an array and a
  sampling frequency, and the world right after the destination was opened.
\<close>

definition written_leaf :: "'v ndarray \<Rightarrow> 'v \<Rightarrow> 'v leaf" where
  "written_leaf obj fq =
     \<lparr>node_class = EARRAY, arr = obj, attrs = earray_sys_attrs @ [(''sample_freq'', AFloat fq)]\<rparr>"

definition written_file :: "string \<Rightarrow> 'v ndarray \<Rightarrow> 'v \<Rightarrow> 'v h5file" where
  "written_file title obj fq =
     \<lparr>root_title = title, children = [(''time_data'', written_leaf obj fq)]\<rparr>"

definition opened_world :: "'v world \<Rightarrow> path \<Rightarrow> 'v h5file \<Rightarrow> 'v world" where
  "opened_world w p f =
     w\<lparr>files := (files w)(p \<mapsto> H5File f),
       handles := handles w @ [new_handle w p ModeW],
       next_hid := Suc (next_hid w)\<rparr>"

subsection \<open>Small inputs\<close>

text \<open>
  Numbers for the examples: a real number, an infinity or nan. \<open>float_of_decimal\<close>
  reads the decimal literals \<^verbatim>\<open>[sign] digits [. digits]\<close> as \<^verbatim>\<open>float\<close> does, and takes
  every other string for one that \<^verbatim>\<open>float\<close> rejects (\<^verbatim>\<open>float\<close> also reads exponents,
  \<^verbatim>\<open>inf\<close> and \<^verbatim>\<open>nan\<close>; no example uses them). The cast to float32 is the identity: the
  numbers of the examples are small integers, which float32 holds exactly.
\<close>

datatype float_value = Number real | PosInf | NegInf | NaN

definition nat_of_digits :: "string \<Rightarrow> nat option" where
  "nat_of_digits s =
     (if s \<noteq> [] \<and> list_all (\<lambda>c. 48 \<le> (of_char c :: nat) \<and> (of_char c :: nat) \<le> 57) s
      then Some (foldl (\<lambda>n c. 10 * n + (of_char c - 48)) 0 s)
      else None)"

definition float_of_decimal :: "string \<Rightarrow> float_value option" where
  "float_of_decimal s =
     (let t = strip_chars [CHR '' ''] s;
          neg = (take 1 t = ''-'');
          body = (if take 1 t = ''-'' \<or> take 1 t = ''+'' then drop 1 t else t);
          ip = takeWhile (\<lambda>c. c \<noteq> CHR ''.'') body;
          fp = drop 1 (dropWhile (\<lambda>c. c \<noteq> CHR ''.'') body)
      in (case (if ip = [] \<and> fp \<noteq> [] then Some 0 else nat_of_digits ip,
                if fp = [] then Some 0 else nat_of_digits fp) of
            (Some i, Some f) \<Rightarrow>
              Some (Number ((if neg then - 1 else 1) * (real i + real f / 10 ^ length fp)))
          | _ \<Rightarrow> None))"

definition decimal_floats :: "float_value py_floats" where
  "decimal_floats =
     \<lparr>float_of_str = float_of_decimal, nan = NaN, to_float32 = (\<lambda>x. x), float_of_real = Number\<rparr>"

text \<open>A disk on which every access goes through.\<close>

definition io_all :: io_env where
  "io_all c = True"

text \<open>Three samples by two channels, as an array and as text.\<close>

definition example_matrix :: "float_value ndarray" where
  "example_matrix =
     \<lparr>dtype = Float32, shape = [3, 2],
      data = [Number 1, Number 2, Number 3, Number 4, Number 5, Number 6]\<rparr>"

definition example_csv :: string where
  "example_csv = ''1.0,2.0\<newline>3.0,4.0\<newline>5.0,6.0''"

text \<open>A text with a field that is not a number, and one with a line that is too long.\<close>

definition example_csv_bad_field :: string where
  "example_csv_bad_field = ''1.0,abc\<newline>3.0,4.0''"

definition example_csv_ragged :: string where
  "example_csv_ragged = ''1.0,2.0\<newline>3.0,4.0,5.0''"

text \<open>
  Arrays the writer refuses: a float32 matrix of three samples and no channel, and the
  array without axes that \<^verbatim>\<open>genfromtxt\<close> returns for a text with one number.
\<close>

definition no_channels :: "float_value ndarray" where
  "no_channels = \<lparr>dtype = Float32, shape = [3, 0], data = []\<rparr>"

definition example_scalar :: "float_value ndarray" where
  "example_scalar = \<lparr>dtype = Float32, shape = [], data = [Number 5]\<rparr>"

text \<open>
  Disks: an empty one, one with the .csv file, and one with a Matlab v7.3 file holding
  the 2 x 3 array \<^verbatim>\<open>ans = [[1, 2, 3], [4, 5, 6]]\<close>.
\<close>

definition empty_world :: "float_value world" where
  "empty_world = \<lparr>files = Map.empty, handles = [], next_hid = 0\<rparr>"

definition csv_world :: "float_value world" where
  "csv_world =
     \<lparr>files = [''three_sources.csv'' \<mapsto> TextFile example_csv], handles = [], next_hid = 0\<rparr>"

definition example_raw :: "float_value ndarray" where
  "example_raw =
     \<lparr>dtype = Float64, shape = [2, 3],
      data = [Number 1, Number 2, Number 3, Number 4, Number 5, Number 6]\<rparr>"

definition example_ans :: "float_value leaf" where
  "example_ans = \<lparr>node_class = ARRAY, arr = example_raw, attrs = []\<rparr>"

definition example_mat73 :: "float_value h5file" where
  "example_mat73 = \<lparr>root_title = [], children = [(''ans'', example_ans)]\<rparr>"

definition mat73_world :: "float_value world" where
  "mat73_world =
     \<lparr>files = [''three_sourcesv73.mat'' \<mapsto> H5File example_mat73], handles = [], next_hid = 0\<rparr>"

text \<open>
  A disk where the destination \<^verbatim>\<open>out.h5\<close> exists already, as an HDF5 file with other
  content; and the same disk after a write of the array without axes to \<^verbatim>\<open>out.h5\<close>,
  which fails.
\<close>

definition occupied_world :: "float_value world" where
  "occupied_world =
     \<lparr>files = [''out.h5'' \<mapsto> H5File example_mat73], handles = [], next_hid = 0\<rparr>"

definition stale_world :: "float_value world" where
  "stale_world =
     fst (write_container io_all occupied_world ''out.h5'' ''three_sources'' example_scalar
            (Number 51200))"

text \<open>
  One dataset in the three source formats: the 3 x 2 matrix \<open>[[1, 2], [3, 4], [5, 6]]\<close>
  as text, as the array \<^verbatim>\<open>ans\<close> of a Matlab v7 file, and as the array \<^verbatim>\<open>ans\<close> of a
  Matlab v7.3 file, which stores it with the axes swapped.
\<close>

definition example_stored :: "float_value ndarray" where
  "example_stored =
     \<lparr>dtype = Float64, shape = [3, 2],
      data = [Number 1, Number 2, Number 3, Number 4, Number 5, Number 6]\<rparr>"

definition example_stored_T :: "float_value ndarray" where
  "example_stored_T =
     \<lparr>dtype = Float64, shape = [2, 3],
      data = [Number 1, Number 3, Number 5, Number 2, Number 4, Number 6]\<rparr>"

definition three_formats_world :: "float_value world" where
  "three_formats_world =
     \<lparr>files = [''three_sources.csv'' \<mapsto> TextFile example_csv,
               ''three_sourcesv7.mat'' \<mapsto> MatFile [(''ans'', example_stored)],
               ''three_sourcesv73.mat'' \<mapsto>
                  H5File \<lparr>root_title = [],
                          children = [(''ans'', \<lparr>node_class = ARRAY, arr = example_stored_T,
                                                  attrs = []\<rparr>)]\<rparr>],
      handles = [], next_hid = 0\<rparr>"

text \<open>A dataset of one sample by two channels, as text and as a Matlab v7 file.\<close>

definition example_row :: "float_value ndarray" where
  "example_row = \<lparr>dtype = Float64, shape = [1, 2], data = [Number 1, Number 2]\<rparr>"

definition row_world :: "float_value world" where
  "row_world =
     \<lparr>files = [''row.csv'' \<mapsto> TextFile ''1.0,2.0'',
               ''row.mat'' \<mapsto> MatFile [(''ans'', example_row)]],
      handles = [], next_hid = 0\<rparr>"

section \<open>Properties\<close>

subsection \<open>Arrays\<close>

lemma nth_concat_map_uniform:
  "\<lbrakk>\<And>x. x \<in> set xs \<Longrightarrow> length (f x) = m; i < length xs; j < m\<rbrakk>
   \<Longrightarrow> concat (map f xs) ! (i * m + j) = f (xs ! i) ! j"
proof (induction xs arbitrary: i)
  case Nil
  then show ?case by simp
next
  case (Cons x xs)
  show ?case
  proof (cases i)
    case 0
    with Cons.prems show ?thesis by (simp add: nth_append)
  next
    case (Suc k)
    have len: "length (f x) = m" using Cons.prems(1) by simp
    have "concat (map f xs) ! (k * m + j) = f (xs ! k) ! j"
      using Cons.IH [of k] Cons.prems Suc by simp
    with Suc len show ?thesis by (simp add: nth_append add.assoc)
  qed
qed

lemma all_indices_2d_length: "length (all_indices [r, c]) = r * c"
  by (simp add: all_indices_def length_concat comp_def sum_list_triv)

lemma all_indices_2d_nth:
  assumes "i < r" "j < c"
  shows "all_indices [r, c] ! (i * c + j) = [i, j]"
proof -
  have "all_indices [r, c] = concat (map (\<lambda>x. map (\<lambda>y. [x, y]) [0..<c]) [0..<r])"
    by (simp add: all_indices_def map_concat comp_def)
  moreover have "concat (map (\<lambda>x. map (\<lambda>y. [x, y]) [0..<c]) [0..<r]) ! (i * c + j)
      = (\<lambda>x. map (\<lambda>y. [x, y]) [0..<c]) ([0..<r] ! i) ! j"
    using assms by (intro nth_concat_map_uniform) simp_all
  ultimately show ?thesis using assms by simp
qed

lemma ravel_index_2d: "ravel_index [r, c] [i, j] = i * c + j"
  by (simp add: ravel_index_def)

lemma ravel_2d_less:
  assumes "i < r" "j < (c::nat)"
  shows "i * c + j < r * c"
proof -
  have "i * c + j < i * c + c" using assms by simp
  also have "\<dots> = (Suc i) * c" by simp
  also have "\<dots> \<le> r * c" using assms by (intro mult_le_mono1) simp
  finally show ?thesis .
qed

lemma shape_ndarray_T: "shape (ndarray_T a) = rev (shape a)"
  by (simp add: ndarray_T_def)

lemma item_ndarray_T_2d:
  assumes "shape a = [c, s]" "wf_ndarray a" "i < s" "j < c"
  shows "item (ndarray_T a) [i, j] = item a [j, i]"
proof -
  have len: "length (data a) = c * s" using assms by (simp add: wf_ndarray_def)
  have l1: "i * c + j < s * c" using assms by (intro ravel_2d_less)
  have l2: "j * s + i < c * s" using assms by (intro ravel_2d_less)
  have "item (ndarray_T a) [i, j]
      = Inr (data a ! ravel_index [c, s] (rev (all_indices [s, c] ! (i * c + j))))"
    using assms l1 by (simp add: item_def ndarray_T_def ravel_index_2d all_indices_2d_length)
  also have "\<dots> = Inr (data a ! (j * s + i))"
    using assms by (simp add: all_indices_2d_nth ravel_index_2d)
  also have "\<dots> = item a [j, i]"
    using assms l2 len by (simp add: item_def ravel_index_2d)
  finally show ?thesis .
qed

lemma item_np_array_float32:
  "item (np_array_float32 fl a) idx = map_sum id (to_float32 fl) (item a idx)"
  by (simp add: item_def np_array_float32_def)

lemma data_np_array_rows:
  "data (squeeze (np_array_rows fl rows)) = map (to_float32 fl) (concat rows)"
  by (cases rows) (simp_all add: squeeze_def np_array_rows_def)

lemma shape_np_array_rows:
  "rows \<noteq> [] \<Longrightarrow>
   shape (squeeze (np_array_rows fl rows)) = filter (\<lambda>n. n \<noteq> 1) [length rows, length (hd rows)]"
  by (cases rows) (simp_all add: squeeze_def np_array_rows_def)

lemma length_data_ndarray_T_2d: "shape a = [c, s] \<Longrightarrow> length (data (ndarray_T a)) = s * c"
  by (simp add: ndarray_T_def all_indices_2d_length)

lemma data_ndarray_T_nth:
  assumes "shape a = [c, s]" "i < s" "j < c"
  shows "data (ndarray_T a) ! (i * c + j) = data a ! (j * s + i)"
proof -
  have "i * c + j < s * c" using assms by (intro ravel_2d_less)
  then show ?thesis
    using assms by (simp add: ndarray_T_def all_indices_2d_length all_indices_2d_nth ravel_index_2d)
qed

lemma index_split:
  assumes "k < r * (c::nat)"
  shows "k div c < r" "k mod c < c" "k div c * c + k mod c = k"
proof -
  have c: "0 < c" using assms by (cases c) simp_all
  show "k div c < r" using assms c by (simp add: less_mult_imp_div_less)
  show "k mod c < c" using c by simp
  show "k div c * c + k mod c = k" by simp
qed

lemma T_cast_T_2d:
  assumes "shape a = [r, c]" "wf_ndarray a"
  shows "ndarray_T (np_array_float32 fl (ndarray_T a)) = np_array_float32 fl a"
proof -
  let ?t = "ndarray_T a"
  let ?ct = "np_array_float32 fl ?t"
  have st: "shape ?t = [c, r]" using assms by (simp add: shape_ndarray_T)
  have lt: "length (data ?t) = c * r" using assms(1) by (rule length_data_ndarray_T_2d)
  have sct: "shape ?ct = [c, r]" using st by (simp add: np_array_float32_def)
  have len: "length (data a) = r * c" using assms by (simp add: wf_ndarray_def)
  have l1: "length (data (ndarray_T ?ct)) = r * c"
    using sct by (rule length_data_ndarray_T_2d)
  have "data (ndarray_T ?ct) ! k = data (np_array_float32 fl a) ! k" if k: "k < r * c" for k
  proof -
    let ?i = "k div c" and ?j = "k mod c"
    have i: "?i < r" and j: "?j < c" and eq: "?i * c + ?j = k"
      using index_split [OF k] by simp_all
    have jr: "?j * r + ?i < c * r" using i j by (intro ravel_2d_less)
    have "data (ndarray_T ?ct) ! (?i * c + ?j) = data ?ct ! (?j * r + ?i)"
      using sct i j by (rule data_ndarray_T_nth)
    also have "\<dots> = to_float32 fl (data ?t ! (?j * r + ?i))"
      using jr lt by (simp add: np_array_float32_def)
    also have "data ?t ! (?j * r + ?i) = data a ! (?i * c + ?j)"
      using assms(1) j i by (rule data_ndarray_T_nth)
    finally have "data (ndarray_T ?ct) ! k = to_float32 fl (data a ! k)"
      by (simp only: eq)
    then show ?thesis using k len by (simp add: np_array_float32_def)
  qed
  then have "data (ndarray_T ?ct) = data (np_array_float32 fl a)"
    using l1 len by (intro nth_equalityI) (simp_all add: np_array_float32_def)
  moreover have "shape (ndarray_T ?ct) = shape (np_array_float32 fl a)"
    using assms(1) by (simp add: shape_ndarray_T np_array_float32_def)
  moreover have "dtype (ndarray_T ?ct) = dtype (np_array_float32 fl a)"
    by (simp add: ndarray_T_def np_array_float32_def)
  ultimately show ?thesis by simp
qed

subsection \<open>Handles and the calls on the disk\<close>

lemma new_handle_sel [simp]:
  "hid (new_handle w p m) = next_hid w"
  "hpath (new_handle w p m) = p"
  "hmode (new_handle w p m) = m"
  by (simp_all add: new_handle_def)

lemma io_all_simps [simp]: "io_all c"
  by (simp add: io_all_def)

lemma held_open_for_writing_imp: "held_open_for_writing w p \<Longrightarrow> held_open w p"
  by (auto simp add: held_open_def held_open_for_writing_def)

lemma open_file_w_held: "held_open w p \<Longrightarrow> open_file io w p ModeW title = (w, Inl ValueError)"
  by (simp add: open_file_def)

lemma open_file_w_refused:
  "\<lbrakk>\<not> held_open w p; \<not> io OpenFile\<rbrakk> \<Longrightarrow> open_file io w p ModeW title = (w, Inl IOError)"
  by (simp add: open_file_def)

lemma open_file_w_ok:
  "\<lbrakk>\<not> held_open w p; io OpenFile\<rbrakk> \<Longrightarrow> open_file io w p ModeW title =
     (w\<lparr>files := (files w)(p \<mapsto> H5File \<lparr>root_title = title, children = []\<rparr>),
        handles := handles w @ [new_handle w p ModeW],
        next_hid := Suc (next_hid w)\<rparr>,
      Inr (new_handle w p ModeW))"
  by (simp add: open_file_def)

lemma open_file_r_ok:
  "\<lbrakk>\<not> held_open_for_writing w p; io OpenFile; files w p = Some (H5File f)\<rbrakk>
   \<Longrightarrow> open_file io w p ModeR title =
     (w\<lparr>handles := handles w @ [new_handle w p ModeR], next_hid := Suc (next_hid w)\<rparr>,
      Inr (new_handle w p ModeR))"
  by (simp add: open_file_def)

lemma writable_file_of_ok:
  "\<lbrakk>h \<in> set (handles w); files w (hpath h) = Some (H5File f); hmode h = ModeW\<rbrakk>
   \<Longrightarrow> writable_file_of w h = Inr f"
  by (simp add: writable_file_of_def file_of_def)

lemma append_rows_empty:
  "shape obj = r # cs \<Longrightarrow>
   append_rows \<lparr>dtype = dtype obj, shape = 0 # cs, data = []\<rparr> obj = Inr obj"
  by (simp add: append_rows_def)

lemma append_rows_scalar: "shape obj = [] \<Longrightarrow> append_rows a obj = Inl ValueError"
  by (simp add: append_rows_def split: list.splits)

lemma create_earray_ok:
  assumes "h \<in> set (handles w)" "files w (hpath h) = Some (H5File f)" "hmode h = ModeW"
    and "io CreateEArray \<or> prod_list (shape obj) = 0"
    and "name \<notin> set (map fst (children f))" "shape obj = r # cs"
    and "0 \<notin> set cs"
  shows "create_earray io w h name obj =
    (put_node w h f name \<lparr>node_class = EARRAY, arr = obj, attrs = earray_sys_attrs\<rparr>, Inr ())"
  using assms by (auto simp add: create_earray_def writable_file_of_ok append_rows_empty Let_def)

lemma set_attr_ok:
  assumes "h \<in> set (handles w)" "files w (hpath h) = Some (H5File f)" "hmode h = ModeW"
    and "io SetAttr" "map_of (children f) name = Some nd"
  shows "set_attr io w h name key v =
    (put_node w h f name (nd\<lparr>attrs := AList.update key v (attrs nd)\<rparr>), Inr ())"
  using assms by (simp add: set_attr_def get_node_def file_of_def writable_file_of_ok)

lemma update_sample_freq:
  "AList.update ''sample_freq'' v earray_sys_attrs = earray_sys_attrs @ [(''sample_freq'', v)]"
  by (simp add: earray_sys_attrs_def)

subsection \<open>What the writer does, case by case\<close>

lemma write_container_ok:
  assumes "\<not> held_open w p" "io OpenFile" "io CreateEArray \<or> prod_list (shape obj) = 0"
    and "io SetAttr"
    and "shape obj = r # cs" "0 \<notin> set cs"
  shows "write_container io w p title obj fq =
    (w\<lparr>files := (files w)(p \<mapsto> H5File (written_file title obj fq)),
       handles := removeAll (new_handle w p ModeW) (handles w),
       next_hid := Suc (next_hid w)\<rparr>,
     Inr ())"
proof -
  let ?h = "new_handle w p ModeW"
  let ?f0 = "\<lparr>root_title = title, children = []\<rparr> :: 'a h5file"
  let ?w1 = "w\<lparr>files := (files w)(p \<mapsto> H5File ?f0),
        handles := handles w @ [?h], next_hid := Suc (next_hid w)\<rparr>"
  let ?nd = "\<lparr>node_class = EARRAY, arr = obj, attrs = earray_sys_attrs\<rparr>"
  let ?w2 = "put_node ?w1 ?h ?f0 ''time_data'' ?nd"
  let ?f1 = "?f0\<lparr>children := AList.update ''time_data'' ?nd (children ?f0)\<rparr>"
  have s1: "open_file io w p ModeW title = (?w1, Inr ?h)"
    using assms(1,2) by (rule open_file_w_ok)
  have s2: "create_earray io ?w1 ?h ''time_data'' obj = (?w2, Inr ())"
    using assms by (intro create_earray_ok) simp_all
  have s3: "set_attr io ?w2 ?h ''time_data'' ''sample_freq'' (AFloat fq) =
      (put_node ?w2 ?h ?f1 ''time_data''
         (?nd\<lparr>attrs := AList.update ''sample_freq'' (AFloat fq) (attrs ?nd)\<rparr>), Inr ())"
    using assms by (intro set_attr_ok) (simp_all add: put_node_def)
  show ?thesis
    apply (simp only: write_container_def s1 prod.case sum.case s2 s3)
    apply (simp add: close_file_def put_node_def update_sample_freq written_file_def
        written_leaf_def)
    done
qed

lemma write_container_cases:
  "write_container io w p title obj fq =
     (if held_open w p then (w, Inl ValueError)
      else if \<not> io OpenFile then (w, Inl IOError)
      else if 0 \<in> set (tl (shape obj)) then
        (opened_world w p \<lparr>root_title = title, children = []\<rparr>, Inl NotImplementedError)
      else if shape obj = [] then
        (opened_world w p \<lparr>root_title = title,
            children = [(''time_data'',
              \<lparr>node_class = EARRAY, arr = \<lparr>dtype = dtype obj, shape = [0], data = []\<rparr>,
               attrs = earray_sys_attrs\<rparr>)]\<rparr>, Inl ValueError)
      else if 0 < prod_list (shape obj) \<and> \<not> io CreateEArray then
        (opened_world w p \<lparr>root_title = title,
            children = [(''time_data'',
              \<lparr>node_class = EARRAY,
               arr = \<lparr>dtype = dtype obj, shape = 0 # tl (shape obj), data = []\<rparr>,
               attrs = earray_sys_attrs\<rparr>)]\<rparr>, Inl HDF5ExtError)
      else if \<not> io SetAttr then
        (opened_world w p \<lparr>root_title = title,
            children = [(''time_data'',
              \<lparr>node_class = EARRAY, arr = obj, attrs = earray_sys_attrs\<rparr>)]\<rparr>, Inl HDF5ExtError)
      else
        (w\<lparr>files := (files w)(p \<mapsto> H5File (written_file title obj fq)),
           handles := removeAll (new_handle w p ModeW) (handles w),
           next_hid := Suc (next_hid w)\<rparr>, Inr ()))"
proof -
  let ?h = "new_handle w p ModeW"
  let ?f0 = "\<lparr>root_title = title, children = []\<rparr> :: 'a h5file"
  let ?w1 = "w\<lparr>files := (files w)(p \<mapsto> H5File ?f0),
        handles := handles w @ [?h], next_hid := Suc (next_hid w)\<rparr>"
  have wr: "writable_file_of ?w1 ?h = Inr ?f0"
    by (intro writable_file_of_ok) simp_all
  consider (held) "held_open w p"
    | (a) "\<not> held_open w p" "\<not> io OpenFile"
    | (z) "\<not> held_open w p" "io OpenFile" "0 \<in> set (tl (shape obj))"
    | (c) "\<not> held_open w p" "io OpenFile" "0 \<notin> set (tl (shape obj))" "shape obj = []"
    | (b) "\<not> held_open w p" "io OpenFile" "0 \<notin> set (tl (shape obj))" "shape obj \<noteq> []"
          "0 < prod_list (shape obj)" "\<not> io CreateEArray"
    | (d) "\<not> held_open w p" "io OpenFile" "0 \<notin> set (tl (shape obj))" "shape obj \<noteq> []"
          "io CreateEArray \<or> prod_list (shape obj) = 0" "\<not> io SetAttr"
    | (e) "\<not> held_open w p" "io OpenFile" "0 \<notin> set (tl (shape obj))" "shape obj \<noteq> []"
          "io CreateEArray \<or> prod_list (shape obj) = 0" "io SetAttr"
    by blast
  then show ?thesis
  proof cases
    case held
    then show ?thesis by (simp add: write_container_def open_file_w_held)
  next
    case a
    then show ?thesis by (simp add: write_container_def open_file_w_refused)
  next
    case z
    have s1: "open_file io w p ModeW title = (?w1, Inr ?h)"
      using z(1,2) by (rule open_file_w_ok)
    have s2: "create_earray io ?w1 ?h ''time_data'' obj = (?w1, Inl NotImplementedError)"
      using z by (simp add: create_earray_def wr)
    show ?thesis using z
      by (simp only: write_container_def s1 s2 prod.case sum.case opened_world_def) simp
  next
    case c
    have s1: "open_file io w p ModeW title = (?w1, Inr ?h)"
      using c(1,2) by (rule open_file_w_ok)
    have s2: "create_earray io ?w1 ?h ''time_data'' obj =
        (put_node ?w1 ?h ?f0 ''time_data''
           \<lparr>node_class = EARRAY, arr = \<lparr>dtype = dtype obj, shape = [0], data = []\<rparr>,
            attrs = earray_sys_attrs\<rparr>, Inl ValueError)"
      using c by (simp add: create_earray_def wr append_rows_scalar Let_def)
    show ?thesis using c
      by (simp only: write_container_def s1 s2 prod.case sum.case opened_world_def)
         (simp add: put_node_def)
  next
    case b
    then obtain r cs where shp: "shape obj = r # cs" by (cases "shape obj") simp_all
    have s1: "open_file io w p ModeW title = (?w1, Inr ?h)"
      using b(1,2) by (rule open_file_w_ok)
    have s2: "create_earray io ?w1 ?h ''time_data'' obj =
        (put_node ?w1 ?h ?f0 ''time_data''
           \<lparr>node_class = EARRAY, arr = \<lparr>dtype = dtype obj, shape = 0 # cs, data = []\<rparr>,
            attrs = earray_sys_attrs\<rparr>, Inl HDF5ExtError)"
      using b shp by (simp add: create_earray_def wr append_rows_empty Let_def)
    show ?thesis using b shp
      by (simp only: write_container_def s1 s2 prod.case sum.case opened_world_def)
         (simp add: put_node_def)
  next
    case d
    then obtain r cs where shp: "shape obj = r # cs" by (cases "shape obj") simp_all
    let ?nd = "\<lparr>node_class = EARRAY, arr = obj, attrs = earray_sys_attrs\<rparr>"
    let ?w2 = "put_node ?w1 ?h ?f0 ''time_data'' ?nd"
    have s1: "open_file io w p ModeW title = (?w1, Inr ?h)"
      using d(1,2) by (rule open_file_w_ok)
    have s2: "create_earray io ?w1 ?h ''time_data'' obj = (?w2, Inr ())"
      using d shp by (intro create_earray_ok) simp_all
    have s3: "set_attr io ?w2 ?h ''time_data'' ''sample_freq'' (AFloat fq) = (?w2, Inl HDF5ExtError)"
      using d by (simp add: set_attr_def get_node_def file_of_def writable_file_of_def put_node_def)
    show ?thesis using d
      by (simp only: write_container_def s1 s2 s3 prod.case sum.case opened_world_def)
         (auto simp add: put_node_def)
  next
    case e
    then obtain r cs where shp: "shape obj = r # cs" by (cases "shape obj") simp_all
    have "0 \<notin> set cs" using e(3) shp by simp
    from write_container_ok [OF e(1) e(2) e(5) e(6) shp this, of title fq] e
    show ?thesis by auto
  qed
qed

lemma write_container_sample_matrix:
  assumes "\<not> held_open w p" "io OpenFile" "io CreateEArray" "io SetAttr"
    and "is_sample_matrix m r c" "0 < c"
  shows "write_container io w p title m fq =
    (w\<lparr>files := (files w)(p \<mapsto> H5File (written_file title m fq)),
       handles := removeAll (new_handle w p ModeW) (handles w),
       next_hid := Suc (next_hid w)\<rparr>, Inr ())"
  using assms by (simp add: write_container_cases is_sample_matrix_def)

lemma node_at_written:
  "node_at (w\<lparr>files := (files w)(p \<mapsto> H5File (written_file title obj fq)),
                 handles := hs, next_hid := n\<rparr>) p ''time_data'' = Some (written_leaf obj fq)"
  by (simp add: node_at_def written_file_def)

lemma attr_names_written:
  "attr_names (w\<lparr>files := (files w)(p \<mapsto> H5File (written_file title obj fq)),
                 handles := hs, next_hid := n\<rparr>) p ''time_data''
   = [''CLASS'', ''EXTDIM'', ''TITLE'', ''VERSION'', ''sample_freq'']"
  by (simp add: attr_names_def node_at_written) (simp add: written_leaf_def earray_sys_attrs_def)

lemma root_children_written:
  "root_children (w\<lparr>files := (files w)(p \<mapsto> H5File (written_file title obj fq)),
                 handles := hs, next_hid := n\<rparr>) p = [''time_data'']"
  by (simp add: root_children_def written_file_def)

lemma get_attr_written: "get_attr (written_leaf obj fq) ''sample_freq'' = Inr (AFloat fq)"
  by (simp add: get_attr_def written_leaf_def earray_sys_attrs_def)

lemma example_matrix_is_sample_matrix: "is_sample_matrix example_matrix 3 2"
  by (simp add: is_sample_matrix_def example_matrix_def wf_ndarray_def)

lemma not_held_open_no_handles [simp]: "handles w = [] \<Longrightarrow> \<not> held_open w p"
  by (simp add: held_open_def)

lemma not_held_open_for_writing_no_handles [simp]:
  "handles w = [] \<Longrightarrow> \<not> held_open_for_writing w p"
  by (simp add: held_open_for_writing_def)

lemma example_worlds_handles [simp]:
  "handles empty_world = []" "handles csv_world = []" "handles mat73_world = []"
  "handles occupied_world = []" "handles three_formats_world = []" "handles row_world = []"
  by (simp_all add: empty_world_def csv_world_def mat73_world_def occupied_world_def
      three_formats_world_def row_world_def)

lemma write_example:
  "handles w = [] \<Longrightarrow>
   write_container io_all w p title example_matrix fq =
    (w\<lparr>files := (files w)(p \<mapsto> H5File (written_file title example_matrix fq)),
       handles := [],
       next_hid := Suc (next_hid w)\<rparr>, Inr ())"
  using write_container_sample_matrix [OF _ _ _ _ example_matrix_is_sample_matrix, of w p io_all title fq]
  by simp

subsection \<open>The Matlab v7.3 adapter\<close>

lemma datamat73_result:
  assumes "io OpenFile" "\<not> held_open_for_writing w p"
    and "files w p = Some (H5File f)" "map_of (children f) ''ans'' = Some nd"
    and "2 \<le> length (shape (arr nd))"
  shows "datamat73 io fl w p =
    (w\<lparr>handles := handles w @ [new_handle w p ModeR], next_hid := Suc (next_hid w)\<rparr>,
     Inr (ndarray_T (np_array_float32 fl (arr nd))))"
  using assms
  by (simp add: datamat73_def open_file_r_ok get_node_def file_of_def getitem_all2_def)

text \<open>
  C1. For a Matlab v7.3 file that can be opened (the disk lets the call through and the
  process does not hold the file open for writing) and stores a well-formed 2-D dataset
  \<^verbatim>\<open>ans\<close> of shape \<open>(c, s)\<close>, the adapter returns a well-formed float32 array of shape
  \<open>(s, c)\<close> whose element \<open>[i, j]\<close> is the stored element \<open>[j, i]\<close>, cast to float32,
  for all \<open>i < s\<close> and \<open>j < c\<close>: the cast is applied first, then the axes are swapped.
\<close>

theorem datamat73_transposes:
  assumes "io OpenFile"
    and "\<not> held_open_for_writing w p"
    and "files w p = Some (H5File f)"
    and "map_of (children f) ''ans'' = Some nd"
    and "shape (arr nd) = [c, s]"
    and "wf_ndarray (arr nd)"
  shows "\<exists>w' m. datamat73 io fl w p = (w', Inr m)
           \<and> dtype m = Float32
           \<and> shape m = [s, c]
           \<and> wf_ndarray m
           \<and> (\<forall>i<s. \<forall>j<c. \<exists>v. item (arr nd) [j, i] = Inr v
                                \<and> item m [i, j] = Inr (to_float32 fl v))"
proof -
  let ?cast = "np_array_float32 fl (arr nd)"
  let ?m = "ndarray_T ?cast"
  have res: "datamat73 io fl w p =
      (w\<lparr>handles := handles w @ [new_handle w p ModeR], next_hid := Suc (next_hid w)\<rparr>, Inr ?m)"
    using assms by (intro datamat73_result) simp_all
  have shp: "shape ?cast = [c, s]" using assms by (simp add: np_array_float32_def)
  have wf: "wf_ndarray ?cast" using assms by (simp add: np_array_float32_def wf_ndarray_def)
  have "dtype ?m = Float32" by (simp add: ndarray_T_def np_array_float32_def)
  moreover have "shape ?m = [s, c]" using shp by (simp add: shape_ndarray_T)
  moreover have "wf_ndarray ?m"
    using shp by (simp add: wf_ndarray_def ndarray_T_def all_indices_2d_length)
  moreover have "\<forall>i<s. \<forall>j<c. \<exists>v. item (arr nd) [j, i] = Inr v
      \<and> item ?m [i, j] = Inr (to_float32 fl v)"
  proof (intro allI impI)
    fix i j assume ij: "i < s" "j < c"
    have "j * s + i < c * s" using ij by (intro ravel_2d_less)
    then have raw: "item (arr nd) [j, i] = Inr (data (arr nd) ! (j * s + i))"
      using assms ij by (simp add: item_def ravel_index_2d wf_ndarray_def)
    have "item ?m [i, j] = item ?cast [j, i]"
      using shp wf ij by (intro item_ndarray_T_2d)
    also have "\<dots> = Inr (to_float32 fl (data (arr nd) ! (j * s + i)))"
      using raw by (simp add: item_np_array_float32)
    finally show "\<exists>v. item (arr nd) [j, i] = Inr v \<and> item ?m [i, j] = Inr (to_float32 fl v)"
      using raw by simp
  qed
  ultimately show ?thesis using res by blast
qed

theorem datamat73_transposes_witness:
  "\<exists>w' m. datamat73 io_all decimal_floats mat73_world ''three_sourcesv73.mat'' = (w', Inr m)
     \<and> dtype m = Float32 \<and> shape m = [3, 2]
     \<and> item example_raw [1, 2] = Inr (Number 6) \<and> item m [2, 1] = Inr (Number 6)"
proof -
  have h1: "io_all OpenFile" by simp
  have h0: "\<not> held_open_for_writing mat73_world ''three_sourcesv73.mat''" by simp
  have h2: "files mat73_world ''three_sourcesv73.mat'' = Some (H5File example_mat73)"
    by (simp add: mat73_world_def)
  have h3: "map_of (children example_mat73) ''ans'' = Some example_ans"
    by (simp add: example_mat73_def)
  have h4: "shape (arr example_ans) = [2, 3]" by (simp add: example_ans_def example_raw_def)
  have h5: "wf_ndarray (arr example_ans)"
    by (simp add: wf_ndarray_def example_ans_def example_raw_def)
  from datamat73_transposes [where io = io_all and fl = decimal_floats and c = 2 and s = 3,
      OF h1 h0 h2 h3 h4 h5]
  obtain w' m where m: "datamat73 io_all decimal_floats mat73_world ''three_sourcesv73.mat'' = (w', Inr m)"
    "dtype m = Float32" "shape m = [3, 2]"
    "\<forall>i<3. \<forall>j<2. \<exists>v. item (arr example_ans) [j, i] = Inr v
        \<and> item m [i, j] = Inr (to_float32 decimal_floats v)"
    by blast
  have raw: "item example_raw [1, 2] = Inr (Number 6)"
    by (simp add: item_def example_raw_def ravel_index_def)
  from m(4) have "\<exists>v. item (arr example_ans) [1, 2] = Inr v
      \<and> item m [2, 1] = Inr (to_float32 decimal_floats v)" by simp
  with raw have "item m [2, 1] = Inr (Number 6)"
    by (simp add: example_ans_def decimal_floats_def)
  with m raw show ?thesis by blast
qed

subsection \<open>Reading delimited text\<close>

lemma first_values_of_spec:
  "first_values_of ls = (fv, fhd) \<Longrightarrow>
     filter (\<lambda>vs. vs \<noteq> []) (map split_line fhd) = filter (\<lambda>vs. vs \<noteq> []) (map split_line ls)
     \<and> fv = (case filter (\<lambda>vs. vs \<noteq> []) (map split_line ls) of [] \<Rightarrow> [] | v # _ \<Rightarrow> v)"
  by (induction ls) (auto split: if_splits)

lemma read_rows_rows:
  "fst (read_rows n i ls)
     = filter (\<lambda>vs. length vs = n) (filter (\<lambda>vs. vs \<noteq> []) (map split_line ls))"
  by (induction ls arbitrary: i) (simp_all add: Let_def case_prod_beta)

lemma read_rows_invalid:
  "map snd (snd (read_rows n i ls))
     = map length (filter (\<lambda>vs. length vs \<noteq> n) (filter (\<lambda>vs. vs \<noteq> []) (map split_line ls)))"
  by (induction ls arbitrary: i) (simp_all add: Let_def case_prod_beta)

lemma read_rows_invalid_iff:
  "snd (read_rows n i ls) \<noteq> [] \<longleftrightarrow>
     (\<exists>vs \<in> set (filter (\<lambda>vs. vs \<noteq> []) (map split_line ls)). length vs \<noteq> n)"
proof -
  have "snd (read_rows n i ls) \<noteq> [] \<longleftrightarrow> map snd (snd (read_rows n i ls)) \<noteq> []" by simp
  also have "\<dots> \<longleftrightarrow>
      filter (\<lambda>vs. length vs \<noteq> n) (filter (\<lambda>vs. vs \<noteq> []) (map split_line ls)) \<noteq> []"
    unfolding read_rows_invalid by simp
  also have "\<dots> \<longleftrightarrow>
      (\<exists>vs \<in> set (filter (\<lambda>vs. vs \<noteq> []) (map split_line ls)). length vs \<noteq> n)"
    by (simp only: filter_empty_conv) blast
  finally show ?thesis .
qed

lemma genfromtxt_cases:
  "genfromtxt fl content =
     (if ragged content then Inl ValueError
      else Inr (squeeze (np_array_rows fl (map (map (loose_call fl)) (data_lines content)))))"
proof -
  obtain fv fhd where f: "first_values_of (universal_lines content) = (fv, fhd)"
    by (cases "first_values_of (universal_lines content)")
  from first_values_of_spec [OF f]
  have fhd: "filter (\<lambda>vs. vs \<noteq> []) (map split_line fhd) = data_lines content"
    and fv: "fv = (case data_lines content of [] \<Rightarrow> [] | v # _ \<Rightarrow> v)"
    by (simp_all add: data_lines_def)
  obtain rows invalid where r: "read_rows (length fv) 0 fhd = (rows, invalid)"
    by (cases "read_rows (length fv) 0 fhd")
  have n: "data_lines content \<noteq> [] \<Longrightarrow> length fv = length (hd (data_lines content))"
    using fv by (cases "data_lines content") simp_all
  have inv: "invalid \<noteq> [] \<longleftrightarrow> ragged content"
  proof (cases "data_lines content = []")
    case True
    then show ?thesis
      using read_rows_invalid_iff [of "length fv" 0 fhd] r fhd by (simp add: ragged_def)
  next
    case False
    have "(\<exists>vs \<in> set (data_lines content). length vs \<noteq> length fv) \<longleftrightarrow> ragged content"
      unfolding ragged_def n [OF False] ..
    then show ?thesis
      using read_rows_invalid_iff [of "length fv" 0 fhd] r fhd by (simp only: snd_conv)
  qed
  have rows: "rows = data_lines content" if nr: "\<not> ragged content"
  proof -
    have "rows = filter (\<lambda>vs. length vs = length fv) (data_lines content)"
      using read_rows_rows [of "length fv" 0 fhd] r fhd by simp
    also have "\<dots> = data_lines content"
    proof (cases "data_lines content = []")
      case True
      then show ?thesis by simp
    next
      case False
      have "length vs = length fv" if "vs \<in> set (data_lines content)" for vs
      proof -
        from nr that have "length vs = length (hd (data_lines content))"
          unfolding ragged_def by blast
        with n [OF False] show ?thesis by (simp only:)
      qed
      then show ?thesis by (simp only: filter_id_conv) blast
    qed
    finally show ?thesis .
  qed
  show ?thesis
    using inv rows by (simp add: genfromtxt_def f r)
qed

lemma genfromtxt_lone_cr:
  "genfromtxt decimal_floats (''1,2'' @ [CHR 0x0D] @ ''3,4\<newline>5,6'')
     = Inr \<lparr>dtype = Float32, shape = [3, 2],
            data = [Number 1, Number 2, Number 3, Number 4, Number 5, Number 6]\<rparr>"
  by (simp add: genfromtxt_def split_line_def strip_chars_def loose_call_def np_array_rows_def
      squeeze_def decimal_floats_def float_of_decimal_def nat_of_digits_def)

text \<open>
  C4, as the code has it. The parse of a delimited text fails (with ValueError) exactly
  when some line with values has another number of values than the first line with
  values; lines that are blank or hold only a comment are skipped. When it does not
  fail, the array holds every value of every such line, in order: no row is truncated
  or padded. A field that is not a valid number does not make the parse fail: its
  element is nan.
\<close>

theorem genfromtxt_ragged_or_nan:
  "(ragged content \<longrightarrow> genfromtxt fl content = Inl ValueError)
   \<and> (\<not> ragged content \<longrightarrow>
        (\<exists>a. genfromtxt fl content = Inr a
             \<and> data a = map (\<lambda>s. to_float32 fl (loose_call fl s)) (concat (data_lines content))
             \<and> (data_lines content \<noteq> [] \<longrightarrow>
                  shape a = filter (\<lambda>n. n \<noteq> 1)
                              [length (data_lines content), length (hd (data_lines content))])))
   \<and> (float_of_str fl s = None \<longrightarrow> loose_call fl s = nan fl)"
  by (simp add: genfromtxt_cases data_np_array_rows shape_np_array_rows loose_call_def
      map_concat comp_def hd_map)

lemma ragged_example: "ragged example_csv_ragged"
  by (simp add: ragged_def data_lines_def split_line_def strip_chars_def example_csv_ragged_def)

theorem genfromtxt_ragged_or_nan_witness:
  "ragged example_csv_ragged \<and> genfromtxt decimal_floats example_csv_ragged = Inl ValueError"
  using genfromtxt_ragged_or_nan [of example_csv_ragged decimal_floats "''abc''"] ragged_example
  by simp

text \<open>
  The claim as the specification states it (a field that is not a valid number makes
  the parse fail) fails: \<^verbatim>\<open>abc\<close> is not a number, and the text \<^verbatim>\<open>1.0,abc\n3.0,4.0\<close> is
  parsed to a 2 x 2 array with nan in the place of \<^verbatim>\<open>abc\<close>.
\<close>

theorem invalid_field_counterexample:
  "float_of_str decimal_floats ''abc'' = None
   \<and> genfromtxt decimal_floats example_csv_bad_field
       = Inr \<lparr>dtype = Float32, shape = [2, 2], data = [Number 1, NaN, Number 3, Number 4]\<rparr>"
  by (simp add: genfromtxt_def split_line_def strip_chars_def loose_call_def np_array_rows_def
      squeeze_def decimal_floats_def float_of_decimal_def nat_of_digits_def
      example_csv_bad_field_def)

subsection \<open>The three adapters on one dataset\<close>

lemma datamat7_result:
  "\<lbrakk>files w p = Some (MatFile vars); map_of vars ''ans'' = Some a\<rbrakk>
   \<Longrightarrow> datamat7 fl w p = Inr (np_array_float32 fl a)"
  by (simp add: datamat7_def loadmat_def)

lemma genfromtxt_holds:
  assumes "csv_holds fl content a" "shape a = [r, c]" "2 \<le> r" "2 \<le> c"
  shows "genfromtxt fl content = Inr (np_array_float32 fl a)"
proof -
  let ?dl = "data_lines content"
  have len: "length ?dl = r" and cols: "\<And>vs. vs \<in> set ?dl \<Longrightarrow> length vs = c"
    and vals: "map (loose_call fl) (concat ?dl) = data a"
    using assms(1,2) by (simp_all add: csv_holds_def)
  have ne: "?dl \<noteq> []" using len assms(3) by auto
  then have hd_in: "hd ?dl \<in> set ?dl" by simp
  have hdc: "length (hd ?dl) = c" using cols [OF hd_in] .
  have nr: "\<not> ragged content"
    unfolding ragged_def using cols hdc by simp
  let ?rows = "map (map (loose_call fl)) ?dl"
  have rows_ne: "?rows \<noteq> []" using ne by simp
  have "np_array_rows fl ?rows =
      \<lparr>dtype = Float32, shape = [r, c], data = map (to_float32 fl) (concat ?rows)\<rparr>"
    using ne len hdc by (cases ?dl) (simp_all add: np_array_rows_def)
  moreover have "concat ?rows = data a"
    using vals by (simp add: map_concat)
  ultimately have "squeeze (np_array_rows fl ?rows) = np_array_float32 fl a"
    using assms(2,3,4) by (simp add: squeeze_def np_array_float32_def)
  then show ?thesis using nr by (simp add: genfromtxt_cases)
qed

text \<open>
  C6, as the code has it. Take one dataset, a well-formed array \<open>a\<close> of \<open>r\<close> samples
  by \<open>c\<close> channels, in the three source formats: a text that holds \<open>a\<close>, a Matlab v7
  file whose array \<^verbatim>\<open>ans\<close> is \<open>a\<close>, and a Matlab v7.3 file whose array \<^verbatim>\<open>ans\<close> is
  \<open>a\<close> with the axes swapped. The two binary adapters return the same sample matrix,
  \<open>a\<close> cast to float32, of shape \<open>(r, c)\<close>. With at least two samples and two channels
  the delimited-text adapter returns that same matrix too: identical shape, and
  elements that are equal one by one (so they agree within every tolerance).
\<close>

theorem adapters_agree:
  assumes "shape a = [r, c]" and "wf_ndarray a"
    and "files w p7 = Some (MatFile vars)" and "map_of vars ''ans'' = Some a"
    and "files w p73 = Some (H5File f)" and "map_of (children f) ''ans'' = Some nd"
    and "arr nd = ndarray_T a"
    and "io OpenFile" and "\<not> held_open_for_writing w p73"
    and "files w pcsv = Some (TextFile content)" and "csv_holds fl content a"
  shows "datamat7 fl w p7 = Inr (np_array_float32 fl a)
       \<and> snd (datamat73 io fl w p73) = Inr (np_array_float32 fl a)
       \<and> (2 \<le> r \<and> 2 \<le> c \<longrightarrow> datacsv fl w pcsv = Inr (np_array_float32 fl a))
       \<and> is_sample_matrix (np_array_float32 fl a) r c"
proof -
  have m7: "datamat7 fl w p7 = Inr (np_array_float32 fl a)"
    using assms(3,4) by (rule datamat7_result)
  have "2 \<le> length (shape (arr nd))" using assms(1,7) by (simp add: shape_ndarray_T)
  then have "datamat73 io fl w p73 =
      (w\<lparr>handles := handles w @ [new_handle w p73 ModeR], next_hid := Suc (next_hid w)\<rparr>,
       Inr (ndarray_T (np_array_float32 fl (arr nd))))"
    using assms by (intro datamat73_result) simp_all
  then have m73: "snd (datamat73 io fl w p73) = Inr (np_array_float32 fl a)"
    using T_cast_T_2d [OF assms(1,2), of fl] assms(7) by simp
  have csv: "datacsv fl w pcsv = Inr (np_array_float32 fl a)" if "2 \<le> r" "2 \<le> c"
    using genfromtxt_holds [OF assms(11) assms(1) that] assms(10) by (simp add: datacsv_def)
  have sm: "is_sample_matrix (np_array_float32 fl a) r c"
    using assms(1,2) by (simp add: is_sample_matrix_def np_array_float32_def wf_ndarray_def)
  from m7 m73 csv sm show ?thesis by blast
qed

lemma csv_holds_example: "csv_holds decimal_floats example_csv example_stored"
  by (simp add: csv_holds_def data_lines_def split_line_def strip_chars_def loose_call_def
      decimal_floats_def float_of_decimal_def nat_of_digits_def example_csv_def
      example_stored_def)

lemma example_stored_T_eq: "example_stored_T = ndarray_T example_stored"
proof -
  have "[0..<2] = [0, Suc 0]" and "[0..<3] = [0, Suc 0, 2]"
    by (simp_all add: upt_rec)
  then show ?thesis
    by (simp add: example_stored_T_def example_stored_def ndarray_T_def all_indices_def
        ravel_index_def)
qed

theorem adapters_agree_witness:
  "datamat7 decimal_floats three_formats_world ''three_sourcesv7.mat'' = Inr example_matrix
   \<and> snd (datamat73 io_all decimal_floats three_formats_world ''three_sourcesv73.mat'')
       = Inr example_matrix
   \<and> datacsv decimal_floats three_formats_world ''three_sources.csv'' = Inr example_matrix"
proof -
  let ?nd = "\<lparr>node_class = ARRAY, arr = example_stored_T, attrs = []\<rparr>"
  let ?f = "\<lparr>root_title = [], children = [(''ans'', ?nd)]\<rparr>"
  have a1: "shape example_stored = [3, 2]" by (simp add: example_stored_def)
  have a2: "wf_ndarray example_stored" by (simp add: wf_ndarray_def example_stored_def)
  have a3: "files three_formats_world ''three_sourcesv7.mat''
      = Some (MatFile [(''ans'', example_stored)])"
    by (simp add: three_formats_world_def)
  have a4: "map_of [(''ans'', example_stored)] ''ans'' = Some example_stored" by simp
  have a5: "files three_formats_world ''three_sourcesv73.mat'' = Some (H5File ?f)"
    by (simp add: three_formats_world_def)
  have a6: "map_of (children ?f) ''ans'' = Some ?nd" by simp
  have a7: "arr ?nd = ndarray_T example_stored" by (simp add: example_stored_T_eq)
  have a8: "io_all OpenFile" by simp
  have a9: "\<not> held_open_for_writing three_formats_world ''three_sourcesv73.mat''" by simp
  have a10: "files three_formats_world ''three_sources.csv'' = Some (TextFile example_csv)"
    by (simp add: three_formats_world_def)
  have cast: "np_array_float32 decimal_floats example_stored = example_matrix"
    by (simp add: np_array_float32_def decimal_floats_def example_stored_def example_matrix_def)
  from adapters_agree [where io = io_all, OF a1 a2 a3 a4 a5 a6 a7 a8 a9 a10 csv_holds_example]
  show ?thesis by (simp add: cast)
qed

text \<open>
  The claim as the specification states it (identical shape for every dataset) fails
  for a dataset of one sample: \<^verbatim>\<open>genfromtxt\<close> squeezes its result, so the text
  \<^verbatim>\<open>1.0,2.0\<close> is read as an array of shape \<open>(2)\<close>, while the Matlab v7 file with the same
  1 x 2 dataset is read as an array of shape \<open>(1, 2)\<close>.
\<close>

theorem single_row_shapes_counterexample:
  "csv_holds decimal_floats ''1.0,2.0'' example_row
   \<and> datacsv decimal_floats row_world ''row.csv''
       = Inr \<lparr>dtype = Float32, shape = [2], data = [Number 1, Number 2]\<rparr>
   \<and> datamat7 decimal_floats row_world ''row.mat''
       = Inr \<lparr>dtype = Float32, shape = [1, 2], data = [Number 1, Number 2]\<rparr>"
  by (simp add: csv_holds_def data_lines_def datacsv_def datamat7_def loadmat_def row_world_def
      genfromtxt_def split_line_def strip_chars_def loose_call_def np_array_rows_def squeeze_def
      np_array_float32_def decimal_floats_def float_of_decimal_def nat_of_digits_def
      example_row_def)

subsection \<open>The writer on the example arrays\<close>

lemma held_open_files_update [simp]: "held_open (w\<lparr>files := fs\<rparr>) p = held_open w p"
  by (simp add: held_open_def)

lemma write_no_channels:
  "handles w = [] \<Longrightarrow>
   write_container io_all w p title no_channels fq =
     (opened_world w p \<lparr>root_title = title, children = []\<rparr>, Inl NotImplementedError)"
  by (simp add: write_container_cases no_channels_def)

lemma write_scalar:
  "handles w = [] \<Longrightarrow>
   write_container io_all w p title example_scalar fq =
     (opened_world w p \<lparr>root_title = title,
        children = [(''time_data'',
          \<lparr>node_class = EARRAY, arr = \<lparr>dtype = Float32, shape = [0], data = []\<rparr>,
           attrs = earray_sys_attrs\<rparr>)]\<rparr>, Inl ValueError)"
  by (simp add: write_container_cases example_scalar_def)

lemma no_channels_is_sample_matrix: "is_sample_matrix no_channels 3 0"
  by (simp add: is_sample_matrix_def no_channels_def wf_ndarray_def)

lemma held_open_opened_world: "held_open (opened_world w p f) p"
  by (simp add: held_open_def opened_world_def)

lemma held_open_for_writing_opened_world: "held_open_for_writing (opened_world w p f) p"
  by (simp add: held_open_for_writing_def opened_world_def)

subsection \<open>The round trip\<close>

lemma read_time_data_written:
  assumes "io OpenFile" "\<not> held_open_for_writing w p" "2 \<le> length (shape m)"
    and "files w p = Some (H5File (written_file title m fq))"
  shows "read_time_data io w p =
    (w\<lparr>handles := handles w @ [new_handle w p ModeR], next_hid := Suc (next_hid w)\<rparr>,
     Inr (m, AFloat fq))"
  using assms
  by (simp add: read_time_data_def open_file_r_ok get_node_def file_of_def getitem_all2_def
      written_file_def get_attr_written)
     (simp add: written_leaf_def)

lemma not_held_after_close:
  "\<not> held_open w p \<Longrightarrow>
   \<not> held_open_for_writing
       (w\<lparr>files := fs, handles := removeAll h (handles w), next_hid := n\<rparr>) p"
  by (auto simp add: held_open_def held_open_for_writing_def)

text \<open>
  C2, as the code has it. Round trip. For every sample matrix \<open>m\<close> with at least one
  channel and every sampling frequency \<open>fq\<close>, when the destination is not held open by
  the process and the disk lets the calls through, writing \<open>m\<close> and \<open>fq\<close> succeeds,
  and reading the file back gives \<open>m\<close> itself (same element type, same shape, the same
  elements) and the attribute \<^verbatim>\<open>sample_freq\<close> equal to \<open>fq\<close>.
\<close>

theorem write_then_read:
  assumes "\<not> held_open w p" "io OpenFile" "io CreateEArray" "io SetAttr"
    and "is_sample_matrix m r c" "0 < c"
  shows "\<exists>w1 w2. write_container io w p title m fq = (w1, Inr ())
           \<and> read_time_data io w1 p = (w2, Inr (m, AFloat fq))"
proof -
  let ?w1 = "w\<lparr>files := (files w)(p \<mapsto> H5File (written_file title m fq)),
       handles := removeAll (new_handle w p ModeW) (handles w),
       next_hid := Suc (next_hid w)\<rparr>"
  have wr: "write_container io w p title m fq = (?w1, Inr ())"
    using assms by (rule write_container_sample_matrix)
  have nh: "\<not> held_open_for_writing ?w1 p"
    using assms(1) by (rule not_held_after_close)
  have "2 \<le> length (shape m)" using assms(5) by (simp add: is_sample_matrix_def)
  then have "read_time_data io ?w1 p =
      (?w1\<lparr>handles := handles ?w1 @ [new_handle ?w1 p ModeR], next_hid := Suc (next_hid ?w1)\<rparr>,
       Inr (m, AFloat fq))"
    using assms(2) nh by (intro read_time_data_written [where title = title]) simp_all
  with wr show ?thesis by blast
qed

theorem write_then_read_witness:
  "\<exists>w1 w2. write_container io_all empty_world ''out.h5'' ''three_sources'' example_matrix
              (Number 51200) = (w1, Inr ())
     \<and> read_time_data io_all w1 ''out.h5'' = (w2, Inr (example_matrix, AFloat (Number 51200)))"
  using write_then_read [OF _ _ _ _ example_matrix_is_sample_matrix, of empty_world "''out.h5''" io_all]
  by simp

text \<open>
  The claim as the specification states it (for every sample matrix) fails for a
  float32 matrix of three samples and no channel: \<^verbatim>\<open>create_earray\<close> refuses it with
  NotImplementedError, and reading the destination back fails, because the process
  still holds it open for writing.
\<close>

theorem round_trip_no_channels_counterexample:
  "is_sample_matrix no_channels 3 0
   \<and> snd (write_container io_all empty_world ''out.h5'' ''three_sources'' no_channels (Number 51200))
       = Inl NotImplementedError
   \<and> snd (read_time_data io_all
            (fst (write_container io_all empty_world ''out.h5'' ''three_sources'' no_channels
                    (Number 51200)))
            ''out.h5'') = Inl ValueError"
  by (simp add: no_channels_is_sample_matrix write_no_channels read_time_data_def open_file_def
      held_open_for_writing_opened_world)

subsection \<open>The attributes of the written node\<close>

text \<open>
  C3, as the code has it. After every successful call of the writer the destination
  holds exactly one root dataset, \<^verbatim>\<open>time_data\<close>. Enumerating its attributes yields five
  names: the four that PyTables writes on every EArray (\<^verbatim>\<open>CLASS\<close>, \<^verbatim>\<open>EXTDIM\<close>, \<^verbatim>\<open>TITLE\<close>,
  \<^verbatim>\<open>VERSION\<close>) and \<^verbatim>\<open>sample_freq\<close>, which is the only attribute set by the caller.
\<close>

theorem write_container_attributes:
  assumes "write_container io w p title obj fq = (w', Inr u)"
  shows "root_children w' p = [''time_data'']
       \<and> attr_names w' p ''time_data''
           = [''CLASS'', ''EXTDIM'', ''TITLE'', ''VERSION'', ''sample_freq'']
       \<and> user_attr_names w' p ''time_data'' = [''sample_freq'']"
proof -
  have w': "w' = w\<lparr>files := (files w)(p \<mapsto> H5File (written_file title obj fq)),
           handles := removeAll (new_handle w p ModeW) (handles w),
           next_hid := Suc (next_hid w)\<rparr>"
    using assms by (simp add: write_container_cases split: if_splits)
  show ?thesis
    unfolding user_attr_names_def w' attr_names_written root_children_written
    by (simp add: earray_sys_attrs_def)
qed

theorem write_container_attributes_witness:
  "snd (write_container io_all empty_world ''out.h5'' ''three_sources'' example_matrix
          (Number 51200)) = Inr ()
   \<and> root_children
        (fst (write_container io_all empty_world ''out.h5'' ''three_sources'' example_matrix
                (Number 51200)))
        ''out.h5'' = [''time_data'']
   \<and> user_attr_names
        (fst (write_container io_all empty_world ''out.h5'' ''three_sources'' example_matrix
                (Number 51200)))
        ''out.h5'' ''time_data'' = [''sample_freq'']"
proof -
  obtain w' where r: "write_container io_all empty_world ''out.h5'' ''three_sources'' example_matrix
      (Number 51200) = (w', Inr ())"
    by (simp add: write_example)
  from write_container_attributes [OF r] r show ?thesis by simp
qed

text \<open>
  The claim as the specification states it (enumerating the attributes of the dataset
  yields a set of size 1) fails: after a successful write of the example matrix the
  dataset has five attributes.
\<close>

theorem five_attributes_counterexample:
  "snd (write_container io_all empty_world ''out.h5'' ''three_sources'' example_matrix
          (Number 51200)) = Inr ()
   \<and> card (set (attr_names
        (fst (write_container io_all empty_world ''out.h5'' ''three_sources'' example_matrix
                (Number 51200)))
        ''out.h5'' ''time_data'')) = 5"
  by (simp add: write_example attr_names_written)

subsection \<open>The layout of the written file\<close>

lemma written_file_layout:
  assumes "\<not> held_open w p" "io OpenFile" "io CreateEArray" "io SetAttr"
    and "is_sample_matrix m r c" "0 < c"
  shows "\<exists>w' nd. write_container io w p title m fq = (w', Inr ())
           \<and> root_children w' p = [''time_data'']
           \<and> node_at w' p ''time_data'' = Some nd
           \<and> node_class nd = EARRAY
           \<and> get_attr nd ''EXTDIM'' = Inr (AInt 0)
           \<and> dtype (arr nd) = Float32
           \<and> shape (arr nd) = [r, c]
           \<and> data (arr nd) = data m
           \<and> get_attr nd ''sample_freq'' = Inr (AFloat fq)"
proof -
  let ?w' = "w\<lparr>files := (files w)(p \<mapsto> H5File (written_file title m fq)),
       handles := removeAll (new_handle w p ModeW) (handles w),
       next_hid := Suc (next_hid w)\<rparr>"
  have "write_container io w p title m fq = (?w', Inr ())"
    using assms by (rule write_container_sample_matrix)
  moreover have "root_children ?w' p = [''time_data'']"
    by (rule root_children_written)
  moreover have "node_at ?w' p ''time_data'' = Some (written_leaf m fq)"
    by (rule node_at_written)
  moreover have "node_class (written_leaf m fq) = EARRAY"
    "get_attr (written_leaf m fq) ''EXTDIM'' = Inr (AInt 0)"
    "data (arr (written_leaf m fq)) = data m"
    by (simp_all add: written_leaf_def get_attr_def earray_sys_attrs_def)
  moreover have "dtype (arr (written_leaf m fq)) = Float32"
    "shape (arr (written_leaf m fq)) = [r, c]"
    using assms(5) by (simp_all add: written_leaf_def is_sample_matrix_def)
  moreover have "get_attr (written_leaf m fq) ''sample_freq'' = Inr (AFloat fq)"
    by (rule get_attr_written)
  ultimately show ?thesis by blast
qed

lemma genfromtxt_example_csv: "genfromtxt decimal_floats example_csv = Inr example_matrix"
  by (simp add: genfromtxt_def split_line_def strip_chars_def loose_call_def np_array_rows_def
      squeeze_def decimal_floats_def float_of_decimal_def nat_of_digits_def example_csv_def
      example_matrix_def)

lemma datacsv_csv_world: "datacsv decimal_floats csv_world ''three_sources.csv'' = Inr example_matrix"
  by (simp add: datacsv_def csv_world_def genfromtxt_example_csv)

text \<open>
  C5, as the code has it. When the destination is not held open by the process and the
  disk lets the calls through, the writer stores a sample matrix \<open>m\<close> of \<open>r\<close> rows and
  \<open>c\<close> columns, with at least one column, as the one child of the root group, the
  extensible array (EArray, growing along axis 0) \<^verbatim>\<open>time_data\<close> of element type float32
  and shape \<open>(r, c)\<close> holding the elements of \<open>m\<close>, with the attribute \<^verbatim>\<open>sample_freq\<close>
  set to the given value. In particular, the text \<^verbatim>\<open>1.0,2.0\n3.0,4.0\n5.0,6.0\<close> read as the
  notebook reads its .csv file and written with the sampling frequency 1000.0 gives a
  dataset of shape \<open>(3, 2)\<close> with the float32 values \<open>[[1, 2], [3, 4], [5, 6]]\<close> and
  \<^verbatim>\<open>sample_freq\<close> 1000.0.
\<close>

theorem write_container_layout:
  "(\<not> held_open w p \<and> io OpenFile \<and> io CreateEArray \<and> io SetAttr
      \<and> is_sample_matrix m r c \<and> 0 < c \<longrightarrow>
      (\<exists>w' nd. write_container io w p title m fq = (w', Inr ())
           \<and> root_children w' p = [''time_data'']
           \<and> node_at w' p ''time_data'' = Some nd
           \<and> node_class nd = EARRAY
           \<and> get_attr nd ''EXTDIM'' = Inr (AInt 0)
           \<and> dtype (arr nd) = Float32
           \<and> shape (arr nd) = [r, c]
           \<and> data (arr nd) = data m
           \<and> get_attr nd ''sample_freq'' = Inr (AFloat fq)))
   \<and> (\<exists>d w' nd. datacsv decimal_floats csv_world ''three_sources.csv'' = Inr d
           \<and> write_container io_all csv_world ''three_sources_from_csv.h5'' ''three_sources'' d
                (Number 1000) = (w', Inr ())
           \<and> root_children w' ''three_sources_from_csv.h5'' = [''time_data'']
           \<and> node_at w' ''three_sources_from_csv.h5'' ''time_data'' = Some nd
           \<and> dtype (arr nd) = Float32
           \<and> shape (arr nd) = [3, 2]
           \<and> data (arr nd) = [Number 1, Number 2, Number 3, Number 4, Number 5, Number 6]
           \<and> get_attr nd ''sample_freq'' = Inr (AFloat (Number 1000)))"
proof (intro conjI impI)
  assume "\<not> held_open w p \<and> io OpenFile \<and> io CreateEArray \<and> io SetAttr
      \<and> is_sample_matrix m r c \<and> 0 < c"
  then show "\<exists>w' nd. write_container io w p title m fq = (w', Inr ())
           \<and> root_children w' p = [''time_data'']
           \<and> node_at w' p ''time_data'' = Some nd
           \<and> node_class nd = EARRAY
           \<and> get_attr nd ''EXTDIM'' = Inr (AInt 0)
           \<and> dtype (arr nd) = Float32
           \<and> shape (arr nd) = [r, c]
           \<and> data (arr nd) = data m
           \<and> get_attr nd ''sample_freq'' = Inr (AFloat fq)"
    by (intro written_file_layout) simp_all
next
  from written_file_layout [OF _ _ _ _ example_matrix_is_sample_matrix,
      of csv_world "''three_sources_from_csv.h5''" io_all "''three_sources''" "Number 1000"]
  obtain w' nd where
    "write_container io_all csv_world ''three_sources_from_csv.h5'' ''three_sources'' example_matrix
       (Number 1000) = (w', Inr ())"
    "root_children w' ''three_sources_from_csv.h5'' = [''time_data'']"
    "node_at w' ''three_sources_from_csv.h5'' ''time_data'' = Some nd"
    "dtype (arr nd) = Float32" "shape (arr nd) = [3, 2]" "data (arr nd) = data example_matrix"
    "get_attr nd ''sample_freq'' = Inr (AFloat (Number 1000))"
    by auto
  moreover have "data example_matrix = [Number 1, Number 2, Number 3, Number 4, Number 5, Number 6]"
    by (simp add: example_matrix_def)
  ultimately show "\<exists>d w' nd. datacsv decimal_floats csv_world ''three_sources.csv'' = Inr d
           \<and> write_container io_all csv_world ''three_sources_from_csv.h5'' ''three_sources'' d
                (Number 1000) = (w', Inr ())
           \<and> root_children w' ''three_sources_from_csv.h5'' = [''time_data'']
           \<and> node_at w' ''three_sources_from_csv.h5'' ''time_data'' = Some nd
           \<and> dtype (arr nd) = Float32
           \<and> shape (arr nd) = [3, 2]
           \<and> data (arr nd) = [Number 1, Number 2, Number 3, Number 4, Number 5, Number 6]
           \<and> get_attr nd ''sample_freq'' = Inr (AFloat (Number 1000))"
    using datacsv_csv_world by metis
qed

theorem write_container_layout_witness:
  "is_sample_matrix example_matrix 3 2
   \<and> (\<exists>w' nd. cell_csv io_all decimal_floats csv_world = (w', Inr ())
           \<and> root_children w' ''three_sources_from_csv.h5'' = [''time_data'']
           \<and> node_at w' ''three_sources_from_csv.h5'' ''time_data'' = Some nd
           \<and> node_class nd = EARRAY
           \<and> dtype (arr nd) = Float32
           \<and> shape (arr nd) = [3, 2]
           \<and> get_attr nd ''sample_freq'' = Inr (AFloat (Number 51200)))"
proof -
  have fr: "float_of_real decimal_floats 51200 = Number 51200"
    by (simp add: decimal_floats_def)
  have cell: "cell_csv io_all decimal_floats csv_world =
      write_container io_all csv_world ''three_sources_from_csv.h5'' ''three_sources''
        example_matrix (Number 51200)"
    by (simp add: cell_csv_def datacsv_csv_world fr)
  have "\<not> held_open csv_world ''three_sources_from_csv.h5'' \<and> io_all OpenFile
      \<and> io_all CreateEArray \<and> io_all SetAttr \<and> is_sample_matrix example_matrix 3 2 \<and> 0 < (2::nat)"
    by (simp add: example_matrix_is_sample_matrix)
  with write_container_layout [of csv_world "''three_sources_from_csv.h5''" io_all
      example_matrix 3 2 "''three_sources''" "Number 51200"]
  have "\<exists>w' nd. write_container io_all csv_world ''three_sources_from_csv.h5'' ''three_sources''
                   example_matrix (Number 51200) = (w', Inr ())
           \<and> root_children w' ''three_sources_from_csv.h5'' = [''time_data'']
           \<and> node_at w' ''three_sources_from_csv.h5'' ''time_data'' = Some nd
           \<and> node_class nd = EARRAY
           \<and> get_attr nd ''EXTDIM'' = Inr (AInt 0)
           \<and> dtype (arr nd) = Float32
           \<and> shape (arr nd) = [3, 2]
           \<and> data (arr nd) = data example_matrix
           \<and> get_attr nd ''sample_freq'' = Inr (AFloat (Number 51200))"
    by blast
  then show ?thesis unfolding cell using example_matrix_is_sample_matrix by blast
qed

text \<open>
  The claim as the specification states it (for every input matrix) fails for a float32
  matrix of three rows and no column: \<^verbatim>\<open>create_earray\<close> refuses it with
  NotImplementedError and no dataset is stored.
\<close>

theorem no_channels_not_stored_counterexample:
  "is_sample_matrix no_channels 3 0
   \<and> snd (write_container io_all empty_world ''out.h5'' ''three_sources'' no_channels (Number 1000))
       = Inl NotImplementedError
   \<and> root_children
        (fst (write_container io_all empty_world ''out.h5'' ''three_sources'' no_channels
                (Number 1000)))
        ''out.h5'' = []"
  by (simp add: no_channels_is_sample_matrix write_no_channels root_children_def opened_world_def)

subsection \<open>The destination handle\<close>

lemma open_file_w_result:
  "snd (open_file io w p ModeW title) =
     (if held_open w p then Inl ValueError
      else if \<not> io OpenFile then Inl IOError
      else Inr (new_handle w p ModeW))"
  by (simp add: open_file_def)

text \<open>
  C8, as the code has it. A call of the writer that returns successfully has closed
  and flushed the destination: the handle it opened is no longer open and the file at
  the destination holds the whole container. A call that fails after the destination
  was opened (in \<^verbatim>\<open>create_earray\<close> or in \<^verbatim>\<open>set_attr\<close>) returns with that handle still
  open: \<^verbatim>\<open>close\<close> is the last line of the cell and is not reached. A call that fails to
  open the destination changes nothing.
\<close>

theorem handle_closed_on_success_only:
  assumes "write_container io w p title m fq = (w', res)"
  shows "(case res of
            Inr _ \<Rightarrow> new_handle w p ModeW \<notin> set (handles w')
                     \<and> files w' p = Some (H5File (written_file title m fq))
          | Inl e \<Rightarrow>
              (case snd (open_file io w p ModeW title) of
                 Inr h \<Rightarrow> h \<in> set (handles w')
               | Inl _ \<Rightarrow> w' = w))"
  using assms
  by (auto simp add: write_container_cases open_file_w_result opened_world_def split: if_splits)

theorem handle_closed_on_success_only_witness:
  "snd (write_container io_all empty_world ''out.h5'' ''three_sources'' example_matrix
          (Number 51200)) = Inr ()
   \<and> new_handle empty_world ''out.h5'' ModeW
     \<notin> set (handles (fst (write_container io_all empty_world ''out.h5'' ''three_sources''
                             example_matrix (Number 51200))))
   \<and> files (fst (write_container io_all empty_world ''out.h5'' ''three_sources''
                    example_matrix (Number 51200))) ''out.h5''
       = Some (H5File (written_file ''three_sources'' example_matrix (Number 51200)))"
proof -
  obtain w' where r: "write_container io_all empty_world ''out.h5'' ''three_sources'' example_matrix
      (Number 51200) = (w', Inr ())"
    by (simp add: write_example)
  from handle_closed_on_success_only [OF r] r show ?thesis by simp
qed

text \<open>
  The claim as the specification states it (the handle is closed on the failure paths
  too) fails. A text with the one number \<^verbatim>\<open>5.0\<close> is read as an array without axes;
  \<^verbatim>\<open>create_earray\<close> raises ValueError on it, and the writer returns with the handle on
  the destination still among the open handles.
\<close>

theorem handle_left_open_counterexample:
  "genfromtxt decimal_floats ''5.0'' = Inr example_scalar
   \<and> snd (write_container io_all empty_world ''out.h5'' ''three_sources'' example_scalar
            (Number 51200)) = Inl ValueError
   \<and> new_handle empty_world ''out.h5'' ModeW
     \<in> set (handles (fst (write_container io_all empty_world ''out.h5'' ''three_sources''
                             example_scalar (Number 51200))))"
proof -
  have "genfromtxt decimal_floats ''5.0'' = Inr example_scalar"
    by (simp add: genfromtxt_def split_line_def strip_chars_def loose_call_def np_array_rows_def
        squeeze_def decimal_floats_def float_of_decimal_def nat_of_digits_def example_scalar_def)
  then show ?thesis by (simp add: write_scalar opened_world_def)
qed

subsection \<open>The sampling frequency\<close>

text \<open>
  C9. The writer does not validate the sampling frequency. Whether a call succeeds, and
  with which error it fails, does not depend on the sampling frequency; and where a write
  can succeed at all (the destination is not held open, the disk lets the calls through,
  the sample matrix has a channel), it succeeds for every value \<open>fq\<close>, zero, negative
  values, infinities and nan included, and the stored attribute \<^verbatim>\<open>sample_freq\<close> is
  \<open>fq\<close>.
\<close>

theorem sample_freq_not_validated:
  "snd (write_container io w p title m fq) = snd (write_container io w p title m fq')
   \<and> (\<not> held_open w p \<and> io OpenFile \<and> io CreateEArray \<and> io SetAttr
        \<and> is_sample_matrix m r c \<and> 0 < c \<longrightarrow>
        (\<exists>w' nd. write_container io w p title m fq = (w', Inr ())
           \<and> node_at w' p ''time_data'' = Some nd
           \<and> get_attr nd ''sample_freq'' = Inr (AFloat fq)))"
proof (intro conjI impI)
  show "snd (write_container io w p title m fq) = snd (write_container io w p title m fq')"
    by (simp add: write_container_cases)
next
  assume "\<not> held_open w p \<and> io OpenFile \<and> io CreateEArray \<and> io SetAttr
        \<and> is_sample_matrix m r c \<and> 0 < c"
  then have "write_container io w p title m fq =
    (w\<lparr>files := (files w)(p \<mapsto> H5File (written_file title m fq)),
       handles := removeAll (new_handle w p ModeW) (handles w),
       next_hid := Suc (next_hid w)\<rparr>, Inr ())"
    using write_container_sample_matrix [of w p io m r c title fq] by blast
  then show "\<exists>w' nd. write_container io w p title m fq = (w', Inr ())
           \<and> node_at w' p ''time_data'' = Some nd
           \<and> get_attr nd ''sample_freq'' = Inr (AFloat fq)"
    using node_at_written get_attr_written by fastforce
qed

lemma example_can_be_written:
  "\<not> held_open empty_world ''out.h5'' \<and> io_all OpenFile \<and> io_all CreateEArray \<and> io_all SetAttr
     \<and> is_sample_matrix example_matrix 3 2 \<and> 0 < (2::nat)"
  by (simp add: example_matrix_is_sample_matrix)

theorem sample_freq_not_validated_witness:
  "(\<exists>w' nd. write_container io_all empty_world ''out.h5'' ''three_sources'' example_matrix
               (Number 0) = (w', Inr ())
           \<and> node_at w' ''out.h5'' ''time_data'' = Some nd
           \<and> get_attr nd ''sample_freq'' = Inr (AFloat (Number 0)))
   \<and> (\<exists>w' nd. write_container io_all empty_world ''out.h5'' ''three_sources'' example_matrix
               (Number (- 51200)) = (w', Inr ())
           \<and> node_at w' ''out.h5'' ''time_data'' = Some nd
           \<and> get_attr nd ''sample_freq'' = Inr (AFloat (Number (- 51200))))
   \<and> (\<exists>w' nd. write_container io_all empty_world ''out.h5'' ''three_sources'' example_matrix
               NaN = (w', Inr ())
           \<and> node_at w' ''out.h5'' ''time_data'' = Some nd
           \<and> get_attr nd ''sample_freq'' = Inr (AFloat NaN))
   \<and> (\<exists>w' nd. write_container io_all empty_world ''out.h5'' ''three_sources'' example_matrix
               NegInf = (w', Inr ())
           \<and> node_at w' ''out.h5'' ''time_data'' = Some nd
           \<and> get_attr nd ''sample_freq'' = Inr (AFloat NegInf))"
  using sample_freq_not_validated [of io_all empty_world "''out.h5''" "''three_sources''"
        example_matrix "Number 0" "Number 0" 3 2]
    sample_freq_not_validated [of io_all empty_world "''out.h5''" "''three_sources''"
        example_matrix "Number (- 51200)" "Number 0" 3 2]
    sample_freq_not_validated [of io_all empty_world "''out.h5''" "''three_sources''"
        example_matrix NaN "Number 0" 3 2]
    sample_freq_not_validated [of io_all empty_world "''out.h5''" "''three_sources''"
        example_matrix NegInf "Number 0" 3 2]
    example_can_be_written
  by blast

subsection \<open>A destination that exists already\<close>

text \<open>
  C10, as the code has it. The destination is opened in mode \<^verbatim>\<open>'w'\<close>. Where a file
  exists at the destination already, the writer never fails with FileExistsError, and
  its outcome is the one it has with no file there. When the process does not hold the
  destination open, the disk lets the calls through and the array can be stored (it has
  an axis, and no axis but the first has length 0), the writer succeeds and the
  destination holds the new container only. When the process holds the destination
  open, \<^verbatim>\<open>open_file\<close> raises ValueError and the file stays as it is.
\<close>

theorem existing_destination_overwritten:
  assumes "files w p = Some old"
  shows "snd (write_container io w p title m fq) \<noteq> Inl FileExistsError
       \<and> snd (write_container io w p title m fq)
           = snd (write_container io (w\<lparr>files := (files w)(p := None)\<rparr>) p title m fq)
       \<and> (\<not> held_open w p \<and> io OpenFile \<and> io CreateEArray \<and> io SetAttr
            \<and> shape m \<noteq> [] \<and> 0 \<notin> set (tl (shape m)) \<longrightarrow>
            snd (write_container io w p title m fq) = Inr ()
            \<and> files (fst (write_container io w p title m fq)) p
                = Some (H5File (written_file title m fq)))
       \<and> (held_open w p \<longrightarrow> write_container io w p title m fq = (w, Inl ValueError))"
  by (simp add: write_container_cases)

theorem existing_destination_overwritten_witness:
  "files occupied_world ''out.h5'' = Some (H5File example_mat73)
   \<and> snd (write_container io_all occupied_world ''out.h5'' ''three_sources'' example_matrix
            (Number 51200)) = Inr ()
   \<and> files (fst (write_container io_all occupied_world ''out.h5'' ''three_sources''
                    example_matrix (Number 51200))) ''out.h5''
       = Some (H5File (written_file ''three_sources'' example_matrix (Number 51200)))"
proof -
  have h: "files occupied_world ''out.h5'' = Some (H5File example_mat73)"
    by (simp add: occupied_world_def)
  have ok: "\<not> held_open occupied_world ''out.h5'' \<and> io_all OpenFile \<and> io_all CreateEArray
      \<and> io_all SetAttr \<and> shape example_matrix \<noteq> [] \<and> 0 \<notin> set (tl (shape example_matrix))"
    by (simp add: example_matrix_def)
  from existing_destination_overwritten [OF h, of io_all "''three_sources''" example_matrix
      "Number 51200"] h ok
  show ?thesis by blast
qed

text \<open>
  The claim as the specification states it (for every destination where a file exists,
  the file is silently overwritten) fails on the disk that a failed write leaves: the
  destination exists and is still held open, the next write raises ValueError, and
  nothing is overwritten.
\<close>

theorem held_open_destination_counterexample:
  "snd (write_container io_all occupied_world ''out.h5'' ''three_sources'' example_scalar
          (Number 51200)) = Inl ValueError
   \<and> files stale_world ''out.h5'' \<noteq> None
   \<and> write_container io_all stale_world ''out.h5'' ''three_sources'' example_matrix (Number 51200)
       = (stale_world, Inl ValueError)"
proof -
  have st: "stale_world = opened_world occupied_world ''out.h5''
      \<lparr>root_title = ''three_sources'',
        children = [(''time_data'',
          \<lparr>node_class = EARRAY, arr = \<lparr>dtype = Float32, shape = [0], data = []\<rparr>,
           attrs = earray_sys_attrs\<rparr>)]\<rparr>"
    by (simp add: stale_world_def write_scalar)
  have held: "held_open stale_world ''out.h5''"
    unfolding st by (rule held_open_opened_world)
  have "files stale_world ''out.h5'' \<noteq> None"
    unfolding st by (simp add: opened_world_def)
  moreover have "write_container io_all stale_world ''out.h5'' ''three_sources'' example_matrix
      (Number 51200) = (stale_world, Inl ValueError)"
    using held by (simp add: write_container_cases)
  ultimately show ?thesis by (simp add: write_scalar)
qed

subsection \<open>The conversion driver\<close>

text \<open>
  C7. For every format tag other than \<^verbatim>\<open>delimited_text\<close>, \<^verbatim>\<open>legacy_binary_matrix\<close> and
  \<^verbatim>\<open>hdf5_binary_matrix\<close>, \<^verbatim>\<open>convert\<close> fails with \<^verbatim>\<open>UnsupportedFormat\<close> and leaves the
  world as it was: no file is created or truncated (in particular none at the
  destination) and no handle is opened.
\<close>

theorem convert_unsupported_format:
  assumes "source_format \<notin> {''delimited_text'', ''legacy_binary_matrix'', ''hdf5_binary_matrix''}"
  shows "convert io fl w source_path source_format destination_path sample_freq
           = (w, Inl UnsupportedFormat)
       \<and> files (fst (convert io fl w source_path source_format destination_path sample_freq))
           destination_path = files w destination_path"
  using assms by (simp add: convert_def select_adapter_def)

theorem convert_unsupported_format_witness:
  "''xyz'' \<notin> {''delimited_text'', ''legacy_binary_matrix'', ''hdf5_binary_matrix''}
   \<and> convert io_all decimal_floats csv_world ''three_sources.csv'' ''xyz'' ''out.h5'' (Number 51200)
       = (csv_world, Inl UnsupportedFormat)
   \<and> files (fst (convert io_all decimal_floats csv_world ''three_sources.csv'' ''xyz'' ''out.h5''
                    (Number 51200)))
       ''out.h5'' = None"
proof -
  have t: "''xyz'' \<notin> {''delimited_text'', ''legacy_binary_matrix'', ''hdf5_binary_matrix''}"
    by simp
  have "files csv_world ''out.h5'' = None" by (simp add: csv_world_def)
  with convert_unsupported_format [OF t, of io_all decimal_floats csv_world
      "''three_sources.csv''" "''out.h5''" "Number 51200"] t
  show ?thesis by simp
qed

end
